theory Spec2Isabelle
  imports Complex_Main
begin

section \<open>JavaScript values, strings and rows\<close>

text \<open>
  A JavaScript string is modelled as the list of its code units; the model's characters
  are the code units below 256. A number is \<open>NaN\<close>, an infinity, or a finite value
  (\<open>-0\<close> is identified with \<open>0\<close>: the program never tells them apart).
\<close>

datatype jsnum = NaN | NegInf | Fin rat | PosInf

datatype jsval = JUndefined | JNull | JBool bool | JNum jsnum | JStr string

text \<open>
  A row is a plain object with string keys; its properties are kept in the order of
  their creation. (Where the program enumerates the properties of a row, in
  \<open>JSON.stringify\<close>, the keys that are array indices come first; see \<open>ownEntries\<close>.)
\<close>

type_synonym row = "(string \<times> jsval) list"

text \<open>
  \<open>obj[k]\<close> (\<open>undefined\<close> when the property is absent), \<open>obj[k] = v\<close> and
  \<open>delete obj[k]\<close>.
\<close>

definition getProp :: "row \<Rightarrow> string \<Rightarrow> jsval" where
  "getProp r k = (case map_of r k of None \<Rightarrow> JUndefined | Some v \<Rightarrow> v)"

fun setProp :: "(string \<times> 'v) list \<Rightarrow> string \<Rightarrow> 'v \<Rightarrow> (string \<times> 'v) list" where
  "setProp [] k v = [(k, v)]"
| "setProp ((k', v') # r) k v = (if k' = k then (k, v) # r else (k', v') # setProp r k v)"

definition deleteProp :: "row \<Rightarrow> string \<Rightarrow> row" where
  "deleteProp r k = filter (\<lambda>kv. fst kv \<noteq> k) r"

fun truthy :: "jsval \<Rightarrow> bool" where
  "truthy JUndefined = False"
| "truthy JNull = False"
| "truthy (JBool b) = b"
| "truthy (JNum n) = (n \<noteq> NaN \<and> n \<noteq> Fin 0)"
| "truthy (JStr s) = (s \<noteq> [])"

text \<open>\<open>a || b\<close>\<close>

definition js_or :: "jsval \<Rightarrow> jsval \<Rightarrow> jsval" where
  "js_or a b = (if truthy a then a else b)"

text \<open>
  The parts of the JavaScript runtime that the program calls and that are not modelled
  here are parameters: the rendering and parsing of floating-point numbers, the regular
  expression engine, dates, URLs and upper-casing. Nothing is assumed about them.
  \<open>regExpTest p s\<close> is \<open>new RegExp(p).test(s)\<close>, \<open>None\<close> when the constructor throws;
  \<open>dateToISO v\<close> is \<open>new Date(v).toISOString()\<close>, \<open>None\<close> when it throws.
\<close>

record js_runtime =
  numToString :: "jsnum \<Rightarrow> string"
  toNumber :: "string \<Rightarrow> jsnum"
  parseFloat :: "string \<Rightarrow> jsnum"
  parseInt :: "string \<Rightarrow> jsnum"
  regExpTest :: "string \<Rightarrow> string \<Rightarrow> bool option"
  emailTest :: "string \<Rightarrow> bool"
  urlValid :: "string \<Rightarrow> bool"
  dateParseOk :: "string \<Rightarrow> bool"
  dateToISO :: "jsval \<Rightarrow> string option"
  toUpperCase :: "string \<Rightarrow> string"

text \<open>\<open>String(value)\<close>\<close>

fun js_String :: "js_runtime \<Rightarrow> jsval \<Rightarrow> string" where
  "js_String rt JUndefined = ''undefined''"
| "js_String rt JNull = ''null''"
| "js_String rt (JBool b) = (if b then ''true'' else ''false'')"
| "js_String rt (JNum n) = numToString rt n"
| "js_String rt (JStr s) = s"

definition DQUOTE :: char where "DQUOTE = CHR 0x22"
definition LF :: char where "LF = CHR 0x0A"
definition CR :: char where "CR = CHR 0x0D"
definition TAB :: char where "TAB = CHR 0x09"
definition BACKSLASH :: char where "BACKSLASH = CHR 0x5C"

text \<open>\<open>str.includes(c)\<close> for a one-character \<open>c\<close>, and \<open>str.replace(/c/g, r)\<close>.\<close>

definition str_includes :: "string \<Rightarrow> char \<Rightarrow> bool" where
  "str_includes s c = (c \<in> set s)"

definition replaceAll :: "char \<Rightarrow> string \<Rightarrow> string \<Rightarrow> string" where
  "replaceAll c r s = concat (map (\<lambda>x. if x = c then r else [x]) s)"

text \<open>\<open>xs.join(sep)\<close>\<close>

fun join :: "string \<Rightarrow> string list \<Rightarrow> string" where
  "join sep [] = []"
| "join sep [x] = x"
| "join sep (x # y # ys) = x @ sep @ join sep (y # ys)"

section \<open>Format writers: delimited text\<close>

text \<open>\<open>CSVFormatter.escapeCSVValue\<close> (the same text as \<open>CSVParser.escapeCSVValue\<close>).\<close>

definition escapeCSVValue :: "js_runtime \<Rightarrow> jsval \<Rightarrow> string" where
  "escapeCSVValue rt v =
     (if v = JNull \<or> v = JUndefined then []
      else let str = js_String rt v in
        if str_includes str CHR '','' \<or> str_includes str DQUOTE \<or> str_includes str LF \<or> str_includes str CR
        then [DQUOTE] @ replaceAll DQUOTE [DQUOTE, DQUOTE] str @ [DQUOTE]
        else str)"

text \<open>\<open>TSVFormatter.escapeTSVValue\<close> (the same text as \<open>CSVParser.escapeTSVValue\<close>).\<close>

definition escapeTSVValue :: "js_runtime \<Rightarrow> jsval \<Rightarrow> string" where
  "escapeTSVValue rt v =
     (if v = JNull \<or> v = JUndefined then []
      else let str = js_String rt v in
        replaceAll CR [BACKSLASH, CHR ''r'']
          (replaceAll LF [BACKSLASH, CHR ''n'']
            (replaceAll TAB [BACKSLASH, CHR ''t''] str)))"

text \<open>
  \<open>CSVFormatter.writeRow\<close> and \<open>TSVFormatter.writeRow\<close>: the text handed to
  \<open>stream.write\<close>. \<open>csvRowValues\<close> and \<open>tsvRowValues\<close> are the source's local
  \<open>rowValues\<close>, the same expression in the formatters, in \<open>writeRowSync\<close> and in the
  worker.
\<close>

definition csvRowValues :: "js_runtime \<Rightarrow> row \<Rightarrow> string list \<Rightarrow> string list" where
  "csvRowValues rt r headers =
     map (\<lambda>header. escapeCSVValue rt (js_or (getProp r header) (JStr []))) headers"

definition tsvRowValues :: "js_runtime \<Rightarrow> row \<Rightarrow> string list \<Rightarrow> string list" where
  "tsvRowValues rt r headers =
     map (\<lambda>header. escapeTSVValue rt (js_or (getProp r header) (JStr []))) headers"

definition CSVFormatter_writeRow :: "js_runtime \<Rightarrow> row \<Rightarrow> string list \<Rightarrow> string" where
  "CSVFormatter_writeRow rt r headers = join '','' (csvRowValues rt r headers) @ [LF]"

definition TSVFormatter_writeRow :: "js_runtime \<Rightarrow> row \<Rightarrow> string list \<Rightarrow> string" where
  "TSVFormatter_writeRow rt r headers = join [TAB] (tsvRowValues rt r headers) @ [LF]"

section \<open>A standard comma-format reader\<close>

text \<open>
  Modelled from the spec: the "standard comma-format reader" of the round-trip property
  is not part of the repository (the program reads with a third-party package). The
  reader below follows RFC 4180: fields are separated by commas, a record ends at a line
  feed (a carriage return just before it belongs to the line ending), a field that opens
  with a double quote runs to the closing quote, and a doubled quote inside it stands
  for one quote.
\<close>

datatype rstate = RecordStart | FieldStart | Unquoted | Quoted | QuoteSeen

definition stripCR :: "string \<Rightarrow> string" where
  "stripCR s = (if s \<noteq> [] \<and> last s = CR then butlast s else s)"

fun csvRead :: "rstate \<Rightarrow> string \<Rightarrow> string list \<Rightarrow> string \<Rightarrow> string list list" where
  "csvRead st cur flds [] =
     (if st = RecordStart then [] else [flds @ [cur]])"
| "csvRead st cur flds (c # cs) =
     (if st = Quoted then
        (if c = DQUOTE then csvRead QuoteSeen cur flds cs
         else csvRead Quoted (cur @ [c]) flds cs)
      else if c = DQUOTE \<and> st = QuoteSeen then csvRead Quoted (cur @ [DQUOTE]) flds cs
      else if c = DQUOTE \<and> (st = RecordStart \<or> st = FieldStart) then csvRead Quoted [] flds cs
      else if c = CHR '','' then csvRead FieldStart [] (flds @ [cur]) cs
      else if c = LF then
        (flds @ [if st = Unquoted then stripCR cur else cur]) # csvRead RecordStart [] [] cs
      else if st = QuoteSeen \<and> c = CR then csvRead QuoteSeen cur flds cs
      else csvRead Unquoted (cur @ [c]) flds cs)"

definition readCSV :: "string \<Rightarrow> string list list" where
  "readCSV text = csvRead RecordStart [] [] text"

section \<open>String helpers of the runtime that are modelled\<close>

text \<open>
  \<open>s.trim()\<close> removes white space and line terminators at both ends (the code units
  below 256 that count as such), \<open>s.toLowerCase()\<close> maps the upper-case letters of
  that range to lower case.
\<close>

definition isSpace :: "char \<Rightarrow> bool" where
  "isSpace c = (c = CHR 0x09 \<or> c = CHR 0x0A \<or> c = CHR 0x0B \<or> c = CHR 0x0C \<or> c = CHR 0x0D
                \<or> c = CHR 0x20 \<or> c = CHR 0xA0)"

definition js_trim :: "string \<Rightarrow> string" where
  "js_trim s = rev (dropWhile isSpace (rev (dropWhile isSpace s)))"

definition lowerChar :: "char \<Rightarrow> char" where
  "lowerChar c =
     (let n = (of_char c :: nat)
      in if (65 \<le> n \<and> n \<le> 90) \<or> (192 \<le> n \<and> n \<le> 222 \<and> n \<noteq> 215)
         then char_of (n + 32) else c)"

definition js_toLowerCase :: "string \<Rightarrow> string" where
  "js_toLowerCase s = map lowerChar s"

text \<open>\<open>Number(value)\<close>, \<open>isNaN\<close>, \<open>Number.isInteger\<close>, and \<open>a < b\<close> on numbers.\<close>

fun js_Number :: "js_runtime \<Rightarrow> jsval \<Rightarrow> jsnum" where
  "js_Number rt JUndefined = NaN"
| "js_Number rt JNull = Fin 0"
| "js_Number rt (JBool b) = (if b then Fin 1 else Fin 0)"
| "js_Number rt (JNum n) = n"
| "js_Number rt (JStr s) = toNumber rt s"

definition isNaN :: "jsnum \<Rightarrow> bool" where
  "isNaN n = (n = NaN)"

fun isInteger :: "jsnum \<Rightarrow> bool" where
  "isInteger (Fin q) = (q = of_int \<lfloor>q\<rfloor>)"
| "isInteger n = False"

fun num_less :: "jsnum \<Rightarrow> jsnum \<Rightarrow> bool" where
  "num_less NaN b = False"
| "num_less a NaN = False"
| "num_less NegInf b = (b \<noteq> NegInf)"
| "num_less a NegInf = False"
| "num_less PosInf b = False"
| "num_less a PosInf = True"
| "num_less (Fin x) (Fin y) = (x < y)"

section \<open>Transformers\<close>

text \<open>
  What a \<open>transform\<close> call can do: return a row, return \<open>null\<close> (the row is dropped),
  or throw. \<open>Inr (Some r)\<close> is the row \<open>r\<close>, \<open>Inr None\<close> is \<open>null\<close>, \<open>Inl e\<close> is the
  exception \<open>e\<close>: a \<open>SyntaxError\<close>, a \<open>TypeError\<close>, or an \<open>Error\<close> with its message.
\<close>

datatype error = SyntaxError | TypeError | Error string

type_synonym stage_result = "error + row option"

subsection \<open>ColumnFilter\<close>

record ColumnFilter =
  includeColumns :: "string list"
  excludeColumns :: "string list"

definition ColumnFilter_transform :: "ColumnFilter \<Rightarrow> row \<Rightarrow> string list \<Rightarrow> row" where
  "ColumnFilter_transform cf r headers =
     (let result = r;
          result = (if length (includeColumns cf) > 0
                    then foldl (\<lambda>filtered col.
                                  if getProp result col \<noteq> JUndefined
                                  then setProp filtered col (getProp result col)
                                  else filtered) [] (includeColumns cf)
                    else result);
          result = (if length (excludeColumns cf) > 0
                    then foldl deleteProp result (excludeColumns cf)
                    else result)
      in result)"

definition ColumnFilter_getOutputHeaders :: "ColumnFilter \<Rightarrow> string list \<Rightarrow> string list" where
  "ColumnFilter_getOutputHeaders cf inputHeaders =
     (let outputHeaders = inputHeaders;
          outputHeaders = (if length (includeColumns cf) > 0
                           then filter (\<lambda>col. col \<in> set inputHeaders) (includeColumns cf)
                           else outputHeaders);
          outputHeaders = (if length (excludeColumns cf) > 0
                           then filter (\<lambda>col. col \<notin> set (excludeColumns cf)) outputHeaders
                           else outputHeaders)
      in outputHeaders)"

subsection \<open>DataTypeConverter\<close>

definition parseBoolean :: "js_runtime \<Rightarrow> jsval \<Rightarrow> bool" where
  "parseBoolean rt v =
     (case v of JBool b \<Rightarrow> b
      | _ \<Rightarrow> js_trim (js_toLowerCase (js_String rt v)) \<in> set [''true'', ''1'', ''yes'', ''y'', ''on''])"

text \<open>
  The body of the \<open>switch\<close> for one column: \<open>Some v'\<close> is the value stored back,
  \<open>None\<close> means the field is left as it is (no case matches, or the conversion threw
  and the \<open>catch\<close> only logs).
\<close>

definition convertValue :: "js_runtime \<Rightarrow> string \<Rightarrow> jsval \<Rightarrow> jsval option" where
  "convertValue rt ty v =
     (let t = js_toLowerCase ty in
      if t = ''number'' \<or> t = ''float''
        then Some (js_or (JNum (parseFloat rt (js_String rt v))) (JNum (Fin 0)))
      else if t = ''integer'' \<or> t = ''int''
        then Some (js_or (JNum (parseInt rt (js_String rt v))) (JNum (Fin 0)))
      else if t = ''boolean'' \<or> t = ''bool'' then Some (JBool (parseBoolean rt v))
      else if t = ''date''
        then (case dateToISO rt v of None \<Rightarrow> None
              | Some isoText \<Rightarrow> Some (JStr (takeWhile (\<lambda>c. c \<noteq> CHR ''T'') isoText)))
      else if t = ''datetime''
        then (case dateToISO rt v of None \<Rightarrow> None | Some isoText \<Rightarrow> Some (JStr isoText))
      else if t = ''uppercase'' then Some (JStr (toUpperCase rt (js_String rt v)))
      else if t = ''lowercase'' then Some (JStr (js_toLowerCase (js_String rt v)))
      else if t = ''trim'' then Some (JStr (js_trim (js_String rt v)))
      else if t = ''string'' then Some (JStr (js_String rt v))
      else None)"

definition DataTypeConverter_transform ::
  "js_runtime \<Rightarrow> (string \<times> string) list \<Rightarrow> row \<Rightarrow> string list \<Rightarrow> row" where
  "DataTypeConverter_transform rt conversions r headers =
     foldl (\<lambda>result (column, ty).
              if getProp result column \<noteq> JUndefined \<and> getProp result column \<noteq> JNull
                 \<and> getProp result column \<noteq> JStr []
              then (case convertValue rt ty (getProp result column) of
                      None \<Rightarrow> result
                    | Some v' \<Rightarrow> setProp result column v')
              else result) r conversions"

subsection \<open>DataValidator\<close>

text \<open>
  One rule object. A field the configuration leaves out is \<open>None\<close> (\<open>undefined\<close>);
  \<open>required\<close> holds the truthiness of \<open>rule.required\<close>.
\<close>

record rule =
  required :: bool
  ruleType :: "string option"
  minLength :: "int option"
  maxLength :: "int option"
  pattern :: "string option"
  ruleMin :: "jsnum option"
  ruleMax :: "jsnum option"
  enum :: "jsval list option"

definition isEmpty :: "js_runtime \<Rightarrow> jsval \<Rightarrow> bool" where
  "isEmpty rt v = (v = JNull \<or> v = JUndefined \<or> js_trim (js_String rt v) = [])"

definition validateType :: "js_runtime \<Rightarrow> jsval \<Rightarrow> string \<Rightarrow> bool" where
  "validateType rt v ty =
     (let t = js_toLowerCase ty in
      if t = ''number'' \<or> t = ''float'' then \<not> isNaN (js_Number rt v)
      else if t = ''integer'' \<or> t = ''int'' then isInteger (js_Number rt v)
      else if t = ''boolean'' \<or> t = ''bool''
        then js_toLowerCase (js_String rt v)
               \<in> set [''true'', ''false'', ''1'', ''0'', ''yes'', ''no'', ''y'', ''n'', ''on'', ''off'']
      else if t = ''date'' then dateParseOk rt (js_String rt v)
      else if t = ''email'' then emailTest rt (js_String rt v)
      else if t = ''url'' then urlValid rt (js_String rt v)
      else True)"

text \<open>
  The body of the \<open>for\<close> loop of \<open>DataValidator.transform\<close> for one column:
  \<open>Inr False\<close> is \<open>return null\<close>, \<open>Inr True\<close> is reaching the end of the body,
  \<open>Inl SyntaxError\<close> is the exception of \<open>new RegExp(rule.pattern)\<close>. The guards are
  the source's: \<open>rule.type\<close>, \<open>rule.minLength\<close>, \<open>rule.maxLength\<close> and
  \<open>rule.pattern\<close> are tested for truthiness, \<open>rule.min\<close> and \<open>rule.max\<close> against
  \<open>undefined\<close>.
\<close>

definition checkRule :: "js_runtime \<Rightarrow> rule \<Rightarrow> jsval \<Rightarrow> error + bool" where
  "checkRule rt ru v =
     (if required ru \<and> isEmpty rt v then Inr False
      else if (case ruleType ru of None \<Rightarrow> False
               | Some ty \<Rightarrow> ty \<noteq> [] \<and> \<not> isEmpty rt v \<and> \<not> validateType rt v ty)
        then Inr False
      else if (case minLength ru of None \<Rightarrow> False
               | Some n \<Rightarrow> n \<noteq> 0 \<and> \<not> isEmpty rt v \<and> int (length (js_String rt v)) < n)
        then Inr False
      else if (case maxLength ru of None \<Rightarrow> False
               | Some n \<Rightarrow> n \<noteq> 0 \<and> \<not> isEmpty rt v \<and> int (length (js_String rt v)) > n)
        then Inr False
      else case (case pattern ru of None \<Rightarrow> Some True
                 | Some p \<Rightarrow> if p \<noteq> [] \<and> \<not> isEmpty rt v
                             then regExpTest rt p (js_String rt v) else Some True) of
        None \<Rightarrow> Inl SyntaxError
      | Some False \<Rightarrow> Inr False
      | Some True \<Rightarrow>
         (if (case ruleMin ru of None \<Rightarrow> False
              | Some m \<Rightarrow> \<not> isEmpty rt v \<and> \<not> isNaN (js_Number rt v)
                           \<and> num_less (js_Number rt v) m)
            then Inr False
          else if (case ruleMax ru of None \<Rightarrow> False
                   | Some m \<Rightarrow> \<not> isEmpty rt v \<and> \<not> isNaN (js_Number rt v)
                                \<and> num_less m (js_Number rt v))
            then Inr False
          else if (case enum ru of None \<Rightarrow> False
                   | Some vs \<Rightarrow> \<not> isEmpty rt v \<and> v \<notin> set vs)
            then Inr False
          else Inr True))"

fun DataValidator_loop :: "js_runtime \<Rightarrow> (string \<times> rule) list \<Rightarrow> row \<Rightarrow> stage_result" where
  "DataValidator_loop rt [] r = Inr (Some r)"
| "DataValidator_loop rt ((column, ru) # rest) r =
     (case checkRule rt ru (getProp r column) of
        Inl e \<Rightarrow> Inl e
      | Inr False \<Rightarrow> Inr None
      | Inr True \<Rightarrow> DataValidator_loop rt rest r)"

definition DataValidator_transform ::
  "js_runtime \<Rightarrow> (string \<times> rule) list \<Rightarrow> row \<Rightarrow> string list \<Rightarrow> stage_result" where
  "DataValidator_transform rt rules r headers = DataValidator_loop rt rules r"

subsection \<open>Aggregator\<close>

text \<open>\<open>minLen = None\<close> is the initial \<open>Infinity\<close>; \<open>uniqueValues\<close> is a \<open>Set\<close>.\<close>

record colstat =
  count :: nat
  nullCount :: nat
  uniqueValues :: "jsval list"
  numericValues :: "jsnum list"
  minLen :: "nat option"
  maxLen :: nat

record Aggregator =
  stats :: "(string \<times> colstat) list"
  rowCount :: nat

definition newAggregator :: Aggregator where
  "newAggregator = \<lparr> stats = [], rowCount = 0 \<rparr>"

definition observeValue :: "js_runtime \<Rightarrow> colstat \<Rightarrow> jsval \<Rightarrow> colstat" where
  "observeValue rt st v =
     (let st = st\<lparr>count := count st + 1\<rparr> in
      if v = JNull \<or> v = JUndefined \<or> v = JStr [] then st\<lparr>nullCount := nullCount st + 1\<rparr>
      else
        let st = st\<lparr>uniqueValues := (if v \<in> set (uniqueValues st) then uniqueValues st
                                       else uniqueValues st @ [v])\<rparr>;
            n = length (js_String rt v);
            st = st\<lparr>minLen := Some (case minLen st of None \<Rightarrow> n | Some m \<Rightarrow> min m n),
                     maxLen := max (maxLen st) n\<rparr>;
            numValue = js_Number rt v
        in if \<not> isNaN numValue then st\<lparr>numericValues := numericValues st @ [numValue]\<rparr>
           else st)"

text \<open>
  The names that every plain object inherits from \<open>Object.prototype\<close>. Reading one
  of them from an object that has no property of its own by that name gives the
  inherited member: a function, or for \<open>__proto__\<close> the prototype itself. Such a
  value is truthy and is neither \<open>null\<close> nor \<open>undefined\<close>.
\<close>

definition objectPrototypeMembers :: "string list" where
  "objectPrototypeMembers =
     [''constructor'', ''hasOwnProperty'', ''isPrototypeOf'', ''propertyIsEnumerable'',
      ''toLocaleString'', ''toString'', ''valueOf'', ''__proto__'',
      ''__defineGetter__'', ''__defineSetter__'', ''__lookupGetter__'', ''__lookupSetter__'']"

definition inherited :: "(string \<times> 'a) list \<Rightarrow> string \<Rightarrow> bool" where
  "inherited obj name = (map_of obj name = None \<and> name \<in> set objectPrototypeMembers)"

text \<open>
  \<open>Aggregator.process\<close>: the body of \<open>headers.forEach\<close>, header by header.
  \<open>this.stats\<close> starts as \<open>{}\<close>, so for a header that names a member of
  \<open>Object.prototype\<close> the test \<open>!this.stats[header]\<close> finds the inherited member and
  no entry is created; \<open>stat\<close> is then that member, \<open>stat.count++\<close> and
  \<open>stat.nullCount++\<close> set properties of it (which are no statistics), and
  \<open>stat.uniqueValues.add(value)\<close> throws a \<open>TypeError\<close>, because
  \<open>stat.uniqueValues\<close> is \<open>undefined\<close>. The value \<open>row[header]\<close> is the inherited
  member as well when the row has no such property. The result is the exception, if
  any, and the aggregator as the call leaves it: the counts of the headers before the one
  that throws stay.
\<close>

fun Aggregator_forEach ::
  "js_runtime \<Rightarrow> row \<Rightarrow> Aggregator \<Rightarrow> string list \<Rightarrow> error option \<times> Aggregator" where
  "Aggregator_forEach rt r a [] = (None, a)"
| "Aggregator_forEach rt r a (header # rest) =
     (if inherited (stats a) header then
        (if \<not> inherited r header
            \<and> (getProp r header = JNull \<or> getProp r header = JUndefined \<or> getProp r header = JStr [])
         then Aggregator_forEach rt r a rest
         else (Some TypeError, a))
      else
        let st = (case map_of (stats a) header of
                    None \<Rightarrow> \<lparr> count = 0, nullCount = 0, uniqueValues = [],
                               numericValues = [], minLen = None, maxLen = 0 \<rparr>
                  | Some st \<Rightarrow> st)
        in Aggregator_forEach rt r
             (a\<lparr>stats := setProp (stats a) header (observeValue rt st (getProp r header))\<rparr>) rest)"

definition Aggregator_process ::
  "js_runtime \<Rightarrow> Aggregator \<Rightarrow> row \<Rightarrow> string list \<Rightarrow> error option \<times> Aggregator" where
  "Aggregator_process rt ag r headers =
     Aggregator_forEach rt r (ag\<lparr>rowCount := rowCount ag + 1\<rparr>) headers"

section \<open>Transformation pipeline\<close>

text \<open>
  The pipeline holds any objects with a \<open>transform\<close> method, and calls
  \<open>getOutputHeaders\<close> on those that have one.
\<close>

record transformer =
  transform :: "row \<Rightarrow> string list \<Rightarrow> stage_result"
  getOutputHeaders :: "(string list \<Rightarrow> string list) option"

record TransformationPipeline =
  transformers :: "transformer list"
  aggregator :: "Aggregator option"

text \<open>The \<open>for\<close> loop of \<open>TransformationPipeline.transform\<close>, with its early return.\<close>

fun applyTransformers :: "transformer list \<Rightarrow> row \<Rightarrow> string list \<Rightarrow> stage_result" where
  "applyTransformers [] result headers = Inr (Some result)"
| "applyTransformers (t # ts) result headers =
     (case transform t result headers of
        Inl e \<Rightarrow> Inl e
      | Inr None \<Rightarrow> Inr None
      | Inr (Some result') \<Rightarrow> applyTransformers ts result' headers)"

definition Pipeline_transform ::
  "js_runtime \<Rightarrow> TransformationPipeline \<Rightarrow> row \<Rightarrow> string list
     \<Rightarrow> stage_result \<times> TransformationPipeline" where
  "Pipeline_transform rt p r headers =
     (case applyTransformers (transformers p) r headers of
        Inl e \<Rightarrow> (Inl e, p)
      | Inr None \<Rightarrow> (Inr None, p)
      | Inr (Some result) \<Rightarrow>
          (case aggregator p of
             None \<Rightarrow> (Inr (Some result), p)
           | Some ag \<Rightarrow>
               (case Aggregator_process rt ag result headers of
                  (Some e, ag') \<Rightarrow> (Inl e, p\<lparr>aggregator := Some ag'\<rparr>)
                | (None, ag') \<Rightarrow> (Inr (Some result), p\<lparr>aggregator := Some ag'\<rparr>))))"

definition Pipeline_getOutputHeaders :: "TransformationPipeline \<Rightarrow> string list \<Rightarrow> string list" where
  "Pipeline_getOutputHeaders p inputHeaders =
     foldl (\<lambda>headers t. case getOutputHeaders t of None \<Rightarrow> headers | Some f \<Rightarrow> f headers)
           inputHeaders (transformers p)"

text \<open>The three transformer classes as pipeline members.\<close>

definition columnFilter :: "ColumnFilter \<Rightarrow> transformer" where
  "columnFilter cf =
     \<lparr> transform = (\<lambda>r headers. Inr (Some (ColumnFilter_transform cf r headers))),
       getOutputHeaders = Some (ColumnFilter_getOutputHeaders cf) \<rparr>"

definition dataTypeConverter :: "js_runtime \<Rightarrow> (string \<times> string) list \<Rightarrow> transformer" where
  "dataTypeConverter rt conversions =
     \<lparr> transform = (\<lambda>r headers. Inr (Some (DataTypeConverter_transform rt conversions r headers))),
       getOutputHeaders = None \<rparr>"

definition dataValidator :: "js_runtime \<Rightarrow> (string \<times> rule) list \<Rightarrow> transformer" where
  "dataValidator rt rules =
     \<lparr> transform = DataValidator_transform rt rules, getOutputHeaders = None \<rparr>"

section \<open>Format writers: JSON, and the factory\<close>

text \<open>
  \<open>JSON.stringify(row)\<close> for a row of primitive values: a property whose value is
  \<open>undefined\<close> is left out, a number that is not finite is written \<open>null\<close>, and a
  string is quoted with the escapes of the JSON grammar.
\<close>

definition hexDigit :: "nat \<Rightarrow> char" where
  "hexDigit n = (if n < 10 then char_of (48 + n) else char_of (87 + n))"

definition quoteChar :: "char \<Rightarrow> string" where
  "quoteChar c =
     (if c = DQUOTE then [BACKSLASH, DQUOTE]
      else if c = BACKSLASH then [BACKSLASH, BACKSLASH]
      else if c = CHR 0x08 then [BACKSLASH, CHR ''b'']
      else if c = CHR 0x0C then [BACKSLASH, CHR ''f'']
      else if c = LF then [BACKSLASH, CHR ''n'']
      else if c = CR then [BACKSLASH, CHR ''r'']
      else if c = TAB then [BACKSLASH, CHR ''t'']
      else if (of_char c :: nat) < 32
        then [BACKSLASH, CHR ''u'', CHR ''0'', CHR ''0'',
              hexDigit ((of_char c :: nat) div 16), hexDigit ((of_char c :: nat) mod 16)]
      else [c])"

definition quoteJSONString :: "string \<Rightarrow> string" where
  "quoteJSONString s = [DQUOTE] @ concat (map quoteChar s) @ [DQUOTE]"

fun serializeJSONValue :: "js_runtime \<Rightarrow> jsval \<Rightarrow> string" where
  "serializeJSONValue rt JUndefined = []"
| "serializeJSONValue rt JNull = ''null''"
| "serializeJSONValue rt (JBool b) = (if b then ''true'' else ''false'')"
| "serializeJSONValue rt (JNum (Fin q)) = numToString rt (Fin q)"
| "serializeJSONValue rt (JNum n) = ''null''"
| "serializeJSONValue rt (JStr s) = quoteJSONString s"

text \<open>
  The order in which the properties of an object are enumerated: first those whose name
  is an array index (a decimal numeral without leading zeros, below 4294967295), by
  ascending value, then the others in the order of their creation. A row lists its
  properties in the order of their creation.
\<close>

definition indexValue :: "string \<Rightarrow> int" where
  "indexValue k = foldl (\<lambda>n c. 10 * n + ((of_char c :: int) - 48)) 0 k"

definition isArrayIndex :: "string \<Rightarrow> bool" where
  "isArrayIndex k =
     (k \<noteq> [] \<and> list_all (\<lambda>c. 48 \<le> (of_char c :: nat) \<and> (of_char c :: nat) \<le> 57) k
      \<and> (k = ''0'' \<or> hd k \<noteq> CHR ''0'') \<and> indexValue k < 4294967295)"

definition ownEntries :: "(string \<times> 'a) list \<Rightarrow> (string \<times> 'a) list" where
  "ownEntries obj =
     sort_key (\<lambda>kv. indexValue (fst kv)) (filter (\<lambda>kv. isArrayIndex (fst kv)) obj)
     @ filter (\<lambda>kv. \<not> isArrayIndex (fst kv)) obj"

definition JSON_stringify :: "js_runtime \<Rightarrow> row \<Rightarrow> string" where
  "JSON_stringify rt r =
     ''{'' @ join '',''
               (map (\<lambda>(k, v). quoteJSONString k @ '':'' @ serializeJSONValue rt v)
                    (filter (\<lambda>(k, v). v \<noteq> JUndefined) (ownEntries r)))
           @ ''}''"

subsection \<open>JSONFormatter\<close>

record JSONFormatter =
  isFirstRow :: bool
  format :: string

text \<open>\<open>new JSONFormatter(options)\<close>; the argument is \<open>options.format\<close>.\<close>

definition JSONFormatter_new :: "string option \<Rightarrow> JSONFormatter" where
  "JSONFormatter_new optFormat =
     \<lparr> isFirstRow = True,
       format = (case optFormat of None \<Rightarrow> ''jsonl'' | Some f \<Rightarrow> if f = [] then ''jsonl'' else f) \<rparr>"

text \<open>
  The three writer methods return the text they write to the stream and the formatter
  after the call.
\<close>

definition JSONFormatter_writeHeader :: "JSONFormatter \<Rightarrow> string list \<Rightarrow> string \<times> JSONFormatter" where
  "JSONFormatter_writeHeader f headers =
     ((if format f = ''array'' then [CHR ''['', LF] else []), f\<lparr>isFirstRow := True\<rparr>)"

definition JSONFormatter_writeRow ::
  "js_runtime \<Rightarrow> JSONFormatter \<Rightarrow> row \<Rightarrow> string list \<Rightarrow> string \<times> JSONFormatter" where
  "JSONFormatter_writeRow rt f r headers =
     (if format f = ''jsonl'' then (JSON_stringify rt r @ [LF], f)
      else if format f = ''array''
        then ((if \<not> isFirstRow f then [CHR '','', LF] else []) @ ''  '' @ JSON_stringify rt r,
              f\<lparr>isFirstRow := False\<rparr>)
      else ([], f))"

definition JSONFormatter_writeFooter :: "JSONFormatter \<Rightarrow> string" where
  "JSONFormatter_writeFooter f = (if format f = ''array'' then [LF, CHR '']'', LF] else [])"

definition JSONFormatter_getFileExtension :: "JSONFormatter \<Rightarrow> string" where
  "JSONFormatter_getFileExtension f = (if format f = ''jsonl'' then ''.jsonl'' else ''.json'')"

text \<open>
  One output file written through a \<open>JSONFormatter\<close>: \<open>writeHeader\<close>, \<open>writeRow\<close> for
  each row in turn, \<open>writeFooter\<close>; the result is the text of the file.
\<close>

fun JSONFormatter_writeRows ::
  "js_runtime \<Rightarrow> JSONFormatter \<Rightarrow> row list \<Rightarrow> string list \<Rightarrow> string \<times> JSONFormatter" where
  "JSONFormatter_writeRows rt f [] headers = ([], f)"
| "JSONFormatter_writeRows rt f (r # rs) headers =
     (let (text, f') = JSONFormatter_writeRow rt f r headers;
          (rest, f'') = JSONFormatter_writeRows rt f' rs headers
      in (text @ rest, f''))"

definition JSONFormatter_writeFile ::
  "js_runtime \<Rightarrow> JSONFormatter \<Rightarrow> row list \<Rightarrow> string list \<Rightarrow> string" where
  "JSONFormatter_writeFile rt f rs headers =
     (let (h, f1) = JSONFormatter_writeHeader f headers;
          (body, f2) = JSONFormatter_writeRows rt f1 rs headers
      in h @ body @ JSONFormatter_writeFooter f2)"

subsection \<open>ParquetFormatter\<close>

text \<open>
  The formatter buffers rows and writes them in batches, one JSON object per batch.
  \<open>pq_headers\<close> is \<open>this.headers\<close>, unset until \<open>writeHeader\<close> is called.
\<close>

record ParquetFormatter =
  pq_rows :: "row list"
  pq_batchSize :: int
  pq_headers :: "string list option"

text \<open>\<open>new ParquetFormatter(options)\<close>; the argument is \<open>options.batchSize\<close>.\<close>

definition ParquetFormatter_new :: "int option \<Rightarrow> ParquetFormatter" where
  "ParquetFormatter_new optBatchSize =
     \<lparr> pq_rows = [],
       pq_batchSize = (case optBatchSize of None \<Rightarrow> 10000 | Some n \<Rightarrow> if n = 0 then 10000 else n),
       pq_headers = None \<rparr>"

definition ParquetFormatter_writeHeader :: "ParquetFormatter \<Rightarrow> string list \<Rightarrow> ParquetFormatter" where
  "ParquetFormatter_writeHeader f headers = f\<lparr>pq_headers := Some headers, pq_rows := []\<rparr>"

definition ParquetFormatter_writeBatch :: "js_runtime \<Rightarrow> ParquetFormatter \<Rightarrow> string \<times> ParquetFormatter" where
  "ParquetFormatter_writeBatch rt f =
     (''{'' @ (case pq_headers f of None \<Rightarrow> []
               | Some hs \<Rightarrow> quoteJSONString ''schema'' @ '':['' @ join '','' (map quoteJSONString hs)
                             @ ''],'')
        @ quoteJSONString ''data'' @ '':['' @ join '','' (map (JSON_stringify rt) (pq_rows f))
        @ '']}'' @ [LF],
      f\<lparr>pq_rows := []\<rparr>)"

definition ParquetFormatter_writeRow ::
  "js_runtime \<Rightarrow> ParquetFormatter \<Rightarrow> row \<Rightarrow> string list \<Rightarrow> string \<times> ParquetFormatter" where
  "ParquetFormatter_writeRow rt f r headers =
     (let f = f\<lparr>pq_rows := pq_rows f @ [r]\<rparr>
      in if int (length (pq_rows f)) \<ge> pq_batchSize f then ParquetFormatter_writeBatch rt f
         else ([], f))"

definition ParquetFormatter_writeFooter :: "js_runtime \<Rightarrow> ParquetFormatter \<Rightarrow> string \<times> ParquetFormatter" where
  "ParquetFormatter_writeFooter rt f =
     (if length (pq_rows f) > 0 then ParquetFormatter_writeBatch rt f else ([], f))"

subsection \<open>createFormatter\<close>

text \<open>
  \<open>createFormatter(format, options)\<close>, for the options the engine passes
  (\<open>rootElement\<close> and \<open>rowElement\<close> only).
\<close>

datatype formatter =
    CSVFormatter
  | JSONFormatterObj JSONFormatter
  | XMLFormatter
  | TSVFormatter
  | ParquetFormatterObj ParquetFormatter

definition createFormatter :: "string \<Rightarrow> error + formatter" where
  "createFormatter fmt =
     (let f = js_toLowerCase fmt in
      if f = ''csv'' then Inr CSVFormatter
      else if f = ''json'' \<or> f = ''jsonl'' then Inr (JSONFormatterObj (JSONFormatter_new (Some f)))
      else if f = ''xml'' then Inr XMLFormatter
      else if f = ''tsv'' then Inr TSVFormatter
      else if f = ''parquet'' then Inr (ParquetFormatterObj (ParquetFormatter_new None))
      else Inl (Error (''Unsupported output format: '' @ fmt)))"

fun getFileExtension :: "formatter \<Rightarrow> string" where
  "getFileExtension CSVFormatter = ''.csv''"
| "getFileExtension (JSONFormatterObj f) = JSONFormatter_getFileExtension f"
| "getFileExtension XMLFormatter = ''.xml''"
| "getFileExtension TSVFormatter = ''.tsv''"
| "getFileExtension (ParquetFormatterObj f) = ''.parquet.json''"

section \<open>The split engine (sequential mode)\<close>

text \<open>Decimal digits of a file number, as the template literal renders it.\<close>

fun showNat :: "nat \<Rightarrow> string" where
  "showNat n = (if n < 10 then [char_of (48 + n)] else showNat (n div 10) @ [char_of (48 + n mod 10)])"

definition showInt :: "int \<Rightarrow> string" where
  "showInt i = (if i < 0 then CHR ''-'' # showNat (nat (- i)) else showNat (nat i))"

text \<open>
  The \<open>transformations\<close> object of the configuration and the options of the
  constructor. A field that is left out is \<open>None\<close>.
\<close>

record transformations =
  t_includeColumns :: "string list option"
  t_excludeColumns :: "string list option"
  t_typeConversions :: "(string \<times> string) list option"
  t_validation :: "(string \<times> rule) list option"

record options =
  opt_inputFilePath :: "string option"
  opt_maxRowsPerFile :: "int option"
  opt_useMultipleProcesses :: bool
  opt_processCount :: "int option"
  opt_outputFormat :: "string option"
  opt_transformations :: "transformations option"
  opt_generateStats :: bool
  opt_chunkSizeBytes :: "int option"

text \<open>
  An output file: its name, the text written to it so far, whether its stream was ended,
  and the record count the engine reports for it when it ends the stream
  (\<open>Completed file \<dots> with N records\<close>; \<open>0\<close> until then).
\<close>

record outfile =
  fileName :: string
  content :: string
  ended :: bool
  records :: int

text \<open>
  The fields of a \<open>CSVParser\<close>. \<open>files\<close> is the output directory: the files this run
  created, in order of creation; \<open>currentOutputStream\<close> is the position of the open
  stream's file in it. \<open>today\<close> is the date the clock gives for the file names.
\<close>

record CSVParser =
  inputFilePath :: string
  maxRowsPerFile :: int
  useMultipleProcesses :: bool
  processCount :: int
  outputFormat :: string
  transformations :: "transformations option"
  generateStats :: bool
  chunkSizeBytes :: int
  currentFileIndex :: int
  currentRowCount :: int
  totalRowsProcessed :: int
  currentOutputStream :: "nat option"
  headers :: "string list"
  outputHeaders :: "string list"
  formatter :: "formatter option"
  transformationPipeline :: "TransformationPipeline option"
  files :: "outfile list"
  today :: string

definition orDefault :: "int option \<Rightarrow> int \<Rightarrow> int" where
  "orDefault v d = (case v of None \<Rightarrow> d | Some n \<Rightarrow> if n = 0 then d else n)"

definition CSVParser_new :: "options \<Rightarrow> string \<Rightarrow> CSVParser" where
  "CSVParser_new opts date =
     \<lparr> inputFilePath = (case opt_inputFilePath opts of None \<Rightarrow> ''users_202506020651.csv''
                        | Some p \<Rightarrow> if p = [] then ''users_202506020651.csv'' else p),
       maxRowsPerFile = orDefault (opt_maxRowsPerFile opts) 100000,
       useMultipleProcesses = opt_useMultipleProcesses opts,
       processCount = orDefault (opt_processCount opts) 4,
       outputFormat = (case opt_outputFormat opts of None \<Rightarrow> ''csv''
                       | Some f \<Rightarrow> if f = [] then ''csv'' else f),
       transformations = opt_transformations opts,
       generateStats = opt_generateStats opts,
       chunkSizeBytes = orDefault (opt_chunkSizeBytes opts) (50 * 1024 * 1024),
       currentFileIndex = 1,
       currentRowCount = 0,
       totalRowsProcessed = 0,
       currentOutputStream = None,
       headers = [],
       outputHeaders = [],
       formatter = None,
       transformationPipeline = None,
       files = [],
       today = date \<rparr>"

definition initializeTransformations :: "js_runtime \<Rightarrow> CSVParser \<Rightarrow> CSVParser" where
  "initializeTransformations rt st =
     (case transformations st of
        None \<Rightarrow> st
      | Some t \<Rightarrow>
          st\<lparr>transformationPipeline := Some
            \<lparr> transformers =
                (if t_includeColumns t \<noteq> None \<or> t_excludeColumns t \<noteq> None
                 then [columnFilter
                         \<lparr> includeColumns = (case t_includeColumns t of None \<Rightarrow> [] | Some cs \<Rightarrow> cs),
                           excludeColumns = (case t_excludeColumns t of None \<Rightarrow> [] | Some cs \<Rightarrow> cs) \<rparr>]
                 else [])
                @ (case t_typeConversions t of None \<Rightarrow> [] | Some c \<Rightarrow> [dataTypeConverter rt c])
                @ (case t_validation t of None \<Rightarrow> [] | Some v \<Rightarrow> [dataValidator rt v]),
              aggregator = (if generateStats st then Some newAggregator else None) \<rparr>\<rparr>)"

text \<open>\<open>this.currentOutputStream.write(text)\<close> and \<open>this.currentOutputStream.end()\<close>.\<close>

definition streamWrite :: "CSVParser \<Rightarrow> string \<Rightarrow> CSVParser" where
  "streamWrite st text =
     (case currentOutputStream st of
        None \<Rightarrow> st
      | Some i \<Rightarrow> st\<lparr>files := (files st)[i := (files st ! i)\<lparr>content := content (files st ! i) @ text\<rparr>]\<rparr>)"

definition streamEnd :: "CSVParser \<Rightarrow> CSVParser" where
  "streamEnd st =
     (case currentOutputStream st of
        None \<Rightarrow> st
      | Some i \<Rightarrow> st\<lparr>files := (files st)[i := (files st ! i)\<lparr>ended := True, records := currentRowCount st\<rparr>]\<rparr>)"

definition escapeXMLValue :: "js_runtime \<Rightarrow> jsval \<Rightarrow> string" where
  "escapeXMLValue rt v =
     (if v = JNull \<or> v = JUndefined then []
      else replaceAll (CHR 0x27) ''&apos;''
             (replaceAll DQUOTE ''&quot;''
               (replaceAll CHR ''>'' ''&gt;''
                 (replaceAll CHR ''<'' ''&lt;''
                   (replaceAll CHR ''&'' ''&amp;'' (js_String rt v))))))"

definition writeHeaderSync :: "CSVParser \<Rightarrow> CSVParser" where
  "writeHeaderSync st =
     (if outputFormat st = ''csv'' then streamWrite st (join '','' (outputHeaders st) @ [LF])
      else if outputFormat st = ''json'' \<or> outputFormat st = ''jsonl'' then st
      else if outputFormat st = ''xml''
        then streamWrite st (''<?xml version='' @ [DQUOTE] @ ''1.0'' @ [DQUOTE] @ '' encoding=''
                               @ [DQUOTE] @ ''UTF-8'' @ [DQUOTE] @ ''?>'' @ [LF] @ ''<data>'' @ [LF])
      else if outputFormat st = ''tsv'' then streamWrite st (join [TAB] (outputHeaders st) @ [LF])
      else st)"

definition writeRowSync :: "js_runtime \<Rightarrow> CSVParser \<Rightarrow> row \<Rightarrow> CSVParser" where
  "writeRowSync rt st r =
     (if outputFormat st = ''csv''
        then streamWrite st (join '','' (csvRowValues rt r (outputHeaders st)) @ [LF])
      else if outputFormat st = ''json'' \<or> outputFormat st = ''jsonl''
        then streamWrite st (JSON_stringify rt r @ [LF])
      else if outputFormat st = ''xml''
        then streamWrite st
               (''  <row>'' @ [LF]
                @ concat (map (\<lambda>header. ''    <'' @ header @ ''>''
                                 @ escapeXMLValue rt (js_or (getProp r header) (JStr []))
                                 @ ''</'' @ header @ ''>'' @ [LF]) (outputHeaders st))
                @ ''  </row>'' @ [LF])
      else if outputFormat st = ''tsv''
        then streamWrite st (join [TAB] (tsvRowValues rt r (outputHeaders st)) @ [LF])
      else st)"

definition writeFooterSync :: "CSVParser \<Rightarrow> CSVParser" where
  "writeFooterSync st =
     (if outputFormat st = ''xml'' then streamWrite st (''</data>'' @ [LF]) else st)"

text \<open>
  \<open>createNewOutputStreamSync\<close>. (The file extension comes from the formatter, which
  \<open>process\<close> has created before.)
\<close>

definition createNewOutputStreamSync :: "CSVParser \<Rightarrow> CSVParser" where
  "createNewOutputStreamSync st =
     (let st = (if currentOutputStream st \<noteq> None then streamEnd (writeFooterSync st) else st);
          fileExtension = (case formatter st of None \<Rightarrow> [] | Some f \<Rightarrow> getFileExtension f);
          outputFileName = ''split_part_'' @ showInt (currentFileIndex st) @ ''_'' @ today st
                             @ fileExtension;
          st = st\<lparr>files := files st @ [\<lparr> fileName = outputFileName, content = [],
                                           ended = False, records = 0 \<rparr>],
                  currentOutputStream := Some (length (files st))\<rparr>;
          st = (if length (outputHeaders st) > 0 then writeHeaderSync st else st)
      in st\<lparr>currentRowCount := 0, currentFileIndex := currentFileIndex st + 1\<rparr>)"

text \<open>
  The handler of the \<open>data\<close> event: the body of the \<open>try\<close>, where an exception of the
  pipeline is caught and only logged, so the row is skipped.
\<close>

definition writeAndCount :: "js_runtime \<Rightarrow> CSVParser \<Rightarrow> row \<Rightarrow> CSVParser" where
  "writeAndCount rt st transformedRow =
     (let st = writeRowSync rt st transformedRow;
          st = st\<lparr>currentRowCount := currentRowCount st + 1,
                  totalRowsProcessed := totalRowsProcessed st + 1\<rparr>
      in if currentRowCount st \<ge> maxRowsPerFile st then createNewOutputStreamSync st else st)"

definition onData :: "js_runtime \<Rightarrow> CSVParser \<Rightarrow> row \<Rightarrow> CSVParser" where
  "onData rt st r =
     (case transformationPipeline st of
        None \<Rightarrow> writeAndCount rt st r
      | Some p \<Rightarrow>
          (case Pipeline_transform rt p r (headers st) of
             (Inl e, p') \<Rightarrow> st\<lparr>transformationPipeline := Some p'\<rparr>
           | (Inr None, p') \<Rightarrow> st\<lparr>transformationPipeline := Some p'\<rparr>
           | (Inr (Some transformedRow), p') \<Rightarrow>
               writeAndCount rt (st\<lparr>transformationPipeline := Some p'\<rparr>) transformedRow))"

text \<open>The handler of the \<open>end\<close> event.\<close>

definition onEnd :: "CSVParser \<Rightarrow> CSVParser" where
  "onEnd st = (if currentOutputStream st \<noteq> None then streamEnd (writeFooterSync st) else st)"

text \<open>
  \<open>processSingleThread\<close>: the rows are the records the reading package delivers after
  the header record, in source order.
\<close>

definition processSingleThread :: "js_runtime \<Rightarrow> CSVParser \<Rightarrow> row list \<Rightarrow> CSVParser" where
  "processSingleThread rt st rows = onEnd (foldl (onData rt) (createNewOutputStreamSync st) rows)"

text \<open>\<open>detectHeaders\<close>, given the header record of the source.\<close>

definition detectHeaders :: "CSVParser \<Rightarrow> string list \<Rightarrow> CSVParser" where
  "detectHeaders st hs =
     st\<lparr>headers := hs,
        outputHeaders := (case transformationPipeline st of
                            None \<Rightarrow> hs
                          | Some p \<Rightarrow> Pipeline_getOutputHeaders p hs)\<rparr>"

section \<open>The parallel branch and \<open>process\<close>\<close>

text \<open>
  \<open>createFileChunks\<close>: the byte ranges \<open>(startByte, endByte)\<close> of the partitions.
  The \<open>for\<close> loop goes on while \<open>start < fileSize\<close> and adds \<open>chunkSize\<close> to
  \<open>start\<close>; with a chunk size that is not positive it does not end, which is the
  result \<open>None\<close>.
\<close>

partial_function (option) chunkLoop ::
  "int \<Rightarrow> int \<Rightarrow> int \<Rightarrow> (int \<times> int) list \<Rightarrow> (int \<times> int) list option" where
  "chunkLoop fileSize chunkSize start chunks =
     (if start < fileSize
      then chunkLoop fileSize chunkSize (start + chunkSize)
             (chunks @ [(start, min (start + chunkSize - 1) (fileSize - 1))])
      else Some chunks)"

declare chunkLoop.simps [code]

definition createFileChunks :: "CSVParser \<Rightarrow> int \<Rightarrow> (int \<times> int) list option" where
  "createFileChunks st fileSize =
     chunkLoop fileSize
       (min (chunkSizeBytes st) \<lceil>rat_of_int fileSize / rat_of_int (processCount st)\<rceil>) 0 []"

text \<open>
  \<open>processMultiThread\<close>. The worker pool runs worker threads; it is the parameter
  \<open>pool\<close>, which gives the results of the partitions or the exception that makes the
  engine fall back to \<open>processSingleThread\<close>.
\<close>

record partitionResult =
  pr_rowsProcessed :: int
  pr_filesCreated :: "string list"
  pr_errors :: "string list"

type_synonym workerPool = "(int \<times> int) list \<Rightarrow> CSVParser \<Rightarrow> error + partitionResult list"

definition processMultiThread ::
  "js_runtime \<Rightarrow> workerPool \<Rightarrow> CSVParser \<Rightarrow> int \<Rightarrow> row list \<Rightarrow> CSVParser option" where
  "processMultiThread rt pool st fileSize rows =
     (case createFileChunks st fileSize of
        None \<Rightarrow> None
      | Some chunks \<Rightarrow>
          (case pool chunks st of
             Inl e \<Rightarrow> Some (processSingleThread rt st rows)
           | Inr results \<Rightarrow>
               Some (st\<lparr>totalRowsProcessed := sum_list (map pr_rowsProcessed results),
                        currentFileIndex :=
                          int (sum_list (map (\<lambda>res. length (pr_filesCreated res)) results)) + 1\<rparr>)))"

text \<open>
  \<open>process\<close>. The source is \<open>Unreadable\<close> when the input file cannot be accessed;
  otherwise it is the size of the file in bytes and what the reading package delivers
  from it: its header record and its rows, or nothing when the file holds no record at
  all. In that case no \<open>headers\<close> event ever comes, the promise of \<open>detectHeaders\<close>
  is never settled and \<open>process\<close> does not return. The result is \<open>None\<close> when
  \<open>process\<close> does not return, otherwise the exception it throws, if any, and the
  parser afterwards.
\<close>

datatype source = Unreadable | Readable int "(string list \<times> row list) option"

definition process ::
  "js_runtime \<Rightarrow> workerPool \<Rightarrow> options \<Rightarrow> string \<Rightarrow> source
     \<Rightarrow> (error option \<times> CSVParser) option" where
  "process rt pool opts date src =
     (let st = CSVParser_new opts date in
      case createFormatter (outputFormat st) of
        Inl e \<Rightarrow> Some (Some e, st)
      | Inr f \<Rightarrow>
          (let st = initializeTransformations rt (st\<lparr>formatter := Some f\<rparr>) in
           case src of
             Unreadable \<Rightarrow>
               Some (Some (Error (''Cannot access input file: '' @ inputFilePath st)), st)
           | Readable fileSize None \<Rightarrow> None
           | Readable fileSize (Some (hs, rows)) \<Rightarrow>
               (let st = detectHeaders st hs in
                if useMultipleProcesses st
                then map_option (Pair None) (processMultiThread rt pool st fileSize rows)
                else Some (None, processSingleThread rt st rows))))"

section \<open>The worker of the parallel mode\<close>

text \<open>\<open>s.split(c)\<close> for a one-character separator.\<close>

fun splitOn :: "char \<Rightarrow> string \<Rightarrow> string list" where
  "splitOn c [] = [[]]"
| "splitOn c (x # xs) =
     (if x = c then [] # splitOn c xs
      else (case splitOn c xs of [] \<Rightarrow> [[x]] | w # ws \<Rightarrow> (x # w) # ws))"

text \<open>\<open>val.replace(/^"|"$/g, '')\<close>: one quote off the front, then one off the end.\<close>

definition stripQuotes :: "string \<Rightarrow> string" where
  "stripQuotes val =
     (let v = (if val \<noteq> [] \<and> hd val = DQUOTE then tl val else val)
      in if v \<noteq> [] \<and> last v = DQUOTE then butlast v else v)"

text \<open>
  The data a worker is started with (\<open>workerData\<close>), the variables of \<open>processChunk\<close>
  together with its \<open>results\<close> object, and the files the worker creates. An entry of
  \<open>errors\<close> is the line number and the exception of the message that the source pushes.
\<close>

record workerData =
  startByte :: nat
  endByte :: nat
  chunkIndex :: nat
  wd_headers :: "string list"
  wd_maxRowsPerFile :: int
  wd_outputFormat :: string
  wd_transformations :: "transformations option"
  wd_today :: string

record wfile =
  wf_name :: string
  wf_content :: string
  wf_ended :: bool

record worker =
  w_currentFileIndex :: int
  w_currentRowCount :: int
  w_currentOutputStream :: "nat option"
  w_files :: "wfile list"
  rowsProcessed :: int
  filesCreated :: "string list"
  errors :: "(nat \<times> error) list"

definition w_write :: "worker \<Rightarrow> string \<Rightarrow> worker" where
  "w_write w text =
     (case w_currentOutputStream w of
        None \<Rightarrow> w
      | Some i \<Rightarrow> w\<lparr>w_files := (w_files w)[i := (w_files w ! i)
                                    \<lparr>wf_content := wf_content (w_files w ! i) @ text\<rparr>]\<rparr>)"

definition w_end :: "worker \<Rightarrow> worker" where
  "w_end w =
     (case w_currentOutputStream w of
        None \<Rightarrow> w
      | Some i \<Rightarrow> w\<lparr>w_files := (w_files w)[i := (w_files w ! i)\<lparr>wf_ended := True\<rparr>]\<rparr>)"

text \<open>The helper \<open>createNewOutputStream\<close> of \<open>processChunk\<close>.\<close>

definition w_createNewOutputStream :: "workerData \<Rightarrow> worker \<Rightarrow> worker" where
  "w_createNewOutputStream wd w =
     (let w = (if w_currentOutputStream w \<noteq> None then w_end w else w);
          outputFileName = ''split_part_'' @ showNat (chunkIndex wd) @ ''_''
                             @ showInt (w_currentFileIndex w) @ ''_'' @ wd_today wd @ ''.csv'';
          w = w\<lparr>w_files := w_files w @ [\<lparr> wf_name = outputFileName, wf_content = [],
                                             wf_ended = False \<rparr>],
                w_currentOutputStream := Some (length (w_files w))\<rparr>;
          w = (if wd_outputFormat wd = ''csv'' \<and> length (wd_headers wd) > 0
               then w_write w (join '','' (wd_headers wd) @ [LF]) else w)
      in w\<lparr>filesCreated := filesCreated w @ [outputFileName],
            w_currentRowCount := 0,
            w_currentFileIndex := w_currentFileIndex w + 1\<rparr>)"

text \<open>
  The helper \<open>applyTransformations\<close> of \<open>processChunk\<close>. The conversion to a date
  throws on a value that is no date; the exception leaves the helper.
\<close>

definition w_convert :: "js_runtime \<Rightarrow> string \<Rightarrow> jsval \<Rightarrow> error + jsval option" where
  "w_convert rt ty v =
     (if ty = ''number'' then Inr (Some (js_or (JNum (js_Number rt v)) (JNum (Fin 0))))
      else if ty = ''boolean'' then Inr (Some (JBool (truthy v)))
      else if ty = ''date''
        then (case dateToISO rt v of None \<Rightarrow> Inl (Error ''Invalid time value'')
              | Some isoText \<Rightarrow> Inr (Some (JStr isoText)))
      else if ty = ''uppercase'' then Inr (Some (JStr (toUpperCase rt (js_String rt v))))
      else if ty = ''lowercase'' then Inr (Some (JStr (js_toLowerCase (js_String rt v))))
      else Inr None)"

fun w_convertAll :: "js_runtime \<Rightarrow> (string \<times> string) list \<Rightarrow> row \<Rightarrow> error + row" where
  "w_convertAll rt [] r = Inr r"
| "w_convertAll rt ((column, ty) # rest) r =
     (if getProp r column \<noteq> JUndefined
      then (case w_convert rt ty (getProp r column) of
              Inl e \<Rightarrow> Inl e
            | Inr None \<Rightarrow> w_convertAll rt rest r
            | Inr (Some v') \<Rightarrow> w_convertAll rt rest (setProp r column v'))
      else w_convertAll rt rest r)"

fun w_validate :: "js_runtime \<Rightarrow> (string \<times> rule) list \<Rightarrow> row \<Rightarrow> stage_result" where
  "w_validate rt [] r = Inr (Some r)"
| "w_validate rt ((column, ru) # rest) r =
     (let v = getProp r column in
      if required ru \<and> (\<not> truthy v \<or> js_trim (js_String rt v) = []) then Inr None
      else if (case minLength ru of None \<Rightarrow> False
               | Some n \<Rightarrow> n \<noteq> 0 \<and> truthy v \<and> int (length (js_String rt v)) < n)
        then Inr None
      else (case (case pattern ru of None \<Rightarrow> Some True
                  | Some p \<Rightarrow> if p \<noteq> [] \<and> truthy v then regExpTest rt p (js_String rt v)
                              else Some True) of
              None \<Rightarrow> Inl SyntaxError
            | Some False \<Rightarrow> Inr None
            | Some True \<Rightarrow> w_validate rt rest r))"

definition w_applyTransformations ::
  "js_runtime \<Rightarrow> transformations option \<Rightarrow> row \<Rightarrow> stage_result" where
  "w_applyTransformations rt tr r =
     (case tr of
        None \<Rightarrow> Inr (Some r)
      | Some t \<Rightarrow>
          (let transformedRow =
                 (case t_includeColumns t of
                    None \<Rightarrow> r
                  | Some cols \<Rightarrow> foldl (\<lambda>filtered col.
                                          if getProp r col \<noteq> JUndefined
                                          then setProp filtered col (getProp r col)
                                          else filtered) [] cols)
           in case (case t_typeConversions t of None \<Rightarrow> Inr transformedRow
                    | Some c \<Rightarrow> w_convertAll rt c transformedRow) of
                Inl e \<Rightarrow> Inl e
              | Inr transformedRow \<Rightarrow>
                  (case t_validation t of None \<Rightarrow> Inr (Some transformedRow)
                   | Some rules \<Rightarrow> w_validate rt rules transformedRow)))"

text \<open>
  One turn of the \<open>for\<close> loop over the lines: \<open>i\<close> is the line number, \<open>l\<close> is
  \<open>lines[i]\<close>.
\<close>

definition w_parseLine :: "string list \<Rightarrow> string \<Rightarrow> row" where
  "w_parseLine hs line =
     (let vals = map stripQuotes (splitOn CHR '','' line)
      in foldl (\<lambda>r (header, index).
                  setProp r header (js_or (if index < length vals then JStr (vals ! index)
                                           else JUndefined) (JStr [])))
               [] (zip hs [0..<length hs]))"

definition w_processLine :: "js_runtime \<Rightarrow> workerData \<Rightarrow> worker \<Rightarrow> nat \<Rightarrow> string \<Rightarrow> worker" where
  "w_processLine rt wd w i l =
     (let line = js_trim l in
      if line = [] then w
      else
        case w_applyTransformations rt (wd_transformations wd) (w_parseLine (wd_headers wd) line) of
          Inl e \<Rightarrow> w\<lparr>errors := errors w @ [(i, e)]\<rparr>
        | Inr None \<Rightarrow> w
        | Inr (Some transformedRow) \<Rightarrow>
            (let w = (if wd_outputFormat wd = ''csv''
                      then w_write w (join '','' (csvRowValues rt transformedRow (wd_headers wd)) @ [LF])
                      else if wd_outputFormat wd = ''json''
                        then w_write w (JSON_stringify rt transformedRow @ [LF])
                      else w);
                 w = w\<lparr>w_currentRowCount := w_currentRowCount w + 1,
                       rowsProcessed := rowsProcessed w + 1\<rparr>
             in if w_currentRowCount w \<ge> wd_maxRowsPerFile wd
                then w_createNewOutputStream wd w else w))"

fun w_loop :: "js_runtime \<Rightarrow> workerData \<Rightarrow> worker \<Rightarrow> nat \<Rightarrow> string list \<Rightarrow> worker" where
  "w_loop rt wd w i [] = w"
| "w_loop rt wd w i (l # ls) = w_loop rt wd (w_processLine rt wd w i l) (Suc i) ls"

text \<open>
  \<open>processChunk\<close>, given the text of the byte range (\<open>buffer\<close> when the stream ends).
\<close>

definition processChunk :: "js_runtime \<Rightarrow> workerData \<Rightarrow> string \<Rightarrow> worker" where
  "processChunk rt wd buffer =
     (let w = \<lparr> w_currentFileIndex = 1, w_currentRowCount = 0, w_currentOutputStream = None,
                w_files = [], rowsProcessed = 0, filesCreated = [], errors = [] \<rparr>;
          isFirstChunk = (startByte wd = 0);
          lines = splitOn LF buffer;
          startIndex = (if isFirstChunk then 1 else 0);
          w = w_createNewOutputStream wd w;
          w = w_loop rt wd w startIndex (drop startIndex lines)
      in if w_currentOutputStream w \<noteq> None then w_end w else w)"

section \<open>A runtime for examples\<close>

text \<open>
  A small instance of the runtime parameters, for evaluating the model on concrete
  inputs: numbers are read and written as unsigned decimal integers, a pattern matches
  when it is the text itself, and a pattern that opens a group it never closes does not
  compile.
\<close>

fun readNat :: "string \<Rightarrow> nat \<Rightarrow> nat option" where
  "readNat [] acc = Some acc"
| "readNat (c # cs) acc =
     (let d = (of_char c :: nat)
      in if 48 \<le> d \<and> d \<le> 57 then readNat cs (10 * acc + (d - 48)) else None)"

definition readNum :: "string \<Rightarrow> jsnum" where
  "readNum s = (if s = [] then NaN
                else case readNat s 0 of None \<Rightarrow> NaN | Some n \<Rightarrow> Fin (of_nat n))"

definition demoRuntime :: js_runtime where
  "demoRuntime =
     \<lparr> numToString = (\<lambda>n. case n of Fin q \<Rightarrow> showInt \<lfloor>q\<rfloor> | NaN \<Rightarrow> ''NaN''
                            | PosInf \<Rightarrow> ''Infinity'' | NegInf \<Rightarrow> ''-Infinity''),
       toNumber = readNum,
       parseFloat = readNum,
       parseInt = readNum,
       regExpTest = (\<lambda>p s. if p = ''('' then None else Some (p = s)),
       emailTest = (\<lambda>s. CHR ''@'' \<in> set s),
       urlValid = (\<lambda>s. False),
       dateParseOk = (\<lambda>s. False),
       dateToISO = (\<lambda>v. None),
       toUpperCase = (\<lambda>s. s) \<rparr>"

section \<open>Notions used to state the properties\<close>







text \<open>
  The Aggregator of the engine's pipeline, if any, has no entry under a name of
  \<open>Object.prototype\<close>. (It starts without entries and never creates such an entry.)
\<close>

definition plainStats :: "Aggregator \<Rightarrow> bool" where
  "plainStats a = list_all (\<lambda>kv. fst kv \<notin> set objectPrototypeMembers) (stats a)"

definition plainPipeline :: "CSVParser \<Rightarrow> bool" where
  "plainPipeline st =
     (case transformationPipeline st of
        None \<Rightarrow> True
      | Some p \<Rightarrow> (case aggregator p of None \<Rightarrow> True | Some a \<Rightarrow> plainStats a))"

text \<open>
  \<open>Aggregator.process\<close> throws for the row: some header names a member of
  \<open>Object.prototype\<close> and the row has no property of that name, or one that is not
  empty.
\<close>

definition aggregatorThrows :: "row \<Rightarrow> string list \<Rightarrow> bool" where
  "aggregatorThrows r hs =
     list_ex (\<lambda>header. header \<in> set objectPrototypeMembers
                \<and> (map_of r header = None
                    \<or> \<not> (getProp r header = JNull \<or> getProp r header = JUndefined
                           \<or> getProp r header = JStr []))) hs"

text \<open>The texts that the synchronous writers put on the stream.\<close>

definition headerText :: "CSVParser \<Rightarrow> string" where
  "headerText st =
     (if outputHeaders st = [] then []
      else if outputFormat st = ''csv'' then join '','' (outputHeaders st) @ [LF]
      else if outputFormat st = ''xml''
        then ''<?xml version='' @ [DQUOTE] @ ''1.0'' @ [DQUOTE] @ '' encoding=''
               @ [DQUOTE] @ ''UTF-8'' @ [DQUOTE] @ ''?>'' @ [LF] @ ''<data>'' @ [LF]
      else if outputFormat st = ''tsv'' then join [TAB] (outputHeaders st) @ [LF]
      else [])"

definition footerText :: "CSVParser \<Rightarrow> string" where
  "footerText st = (if outputFormat st = ''xml'' then ''</data>'' @ [LF] else [])"

definition newFileName :: "CSVParser \<Rightarrow> string" where
  "newFileName st =
     ''split_part_'' @ showInt (currentFileIndex st) @ ''_'' @ today st
       @ (case formatter st of None \<Rightarrow> [] | Some f \<Rightarrow> getFileExtension f)"

definition rowText :: "js_runtime \<Rightarrow> CSVParser \<Rightarrow> row \<Rightarrow> string" where
  "rowText rt st r =
     (if outputFormat st = ''csv'' then join '','' (csvRowValues rt r (outputHeaders st)) @ [LF]
      else if outputFormat st = ''json'' \<or> outputFormat st = ''jsonl'' then JSON_stringify rt r @ [LF]
      else if outputFormat st = ''xml''
        then ''  <row>'' @ [LF]
             @ concat (map (\<lambda>header. ''    <'' @ header @ ''>''
                              @ escapeXMLValue rt (js_or (getProp r header) (JStr []))
                              @ ''</'' @ header @ ''>'' @ [LF]) (outputHeaders st))
             @ ''  </row>'' @ [LF]
      else if outputFormat st = ''tsv'' then join [TAB] (tsvRowValues rt r (outputHeaders st)) @ [LF]
      else [])"




text \<open>
  The finished output file number \<open>i\<close> that holds the rows \<open>g\<close>, and the finished files
  for consecutive groups of rows from number \<open>i\<close> on.
\<close>

definition fileOf :: "js_runtime \<Rightarrow> CSVParser \<Rightarrow> int \<Rightarrow> row list \<Rightarrow> outfile" where
  "fileOf rt st i g =
     \<lparr> fileName = newFileName (st\<lparr>currentFileIndex := i\<rparr>),
       content = headerText st @ concat (map (rowText rt st) g) @ footerText st,
       ended = True,
       records = int (length g) \<rparr>"

fun filesFrom :: "js_runtime \<Rightarrow> CSVParser \<Rightarrow> int \<Rightarrow> row list list \<Rightarrow> outfile list" where
  "filesFrom rt st i [] = []"
| "filesFrom rt st i (g # gs) = fileOf rt st i g # filesFrom rt st (i + 1) gs"

text \<open>The fields of the parser that a run never changes.\<close>

definition settings ::
  "CSVParser \<Rightarrow> string \<times> string list \<times> string \<times> formatter option \<times> int \<times> string list" where
  "settings st =
     (outputFormat st, outputHeaders st, today st, formatter st, maxRowsPerFile st, headers st)"







section \<open>Example inputs\<close>

text \<open>
  The scenario of the specification: header \<open>id,name,age\<close>, the rows of Alice (30) and
  Bob (17), at most 10 rows per file, comma format; and the validation
  \<open>{age: {type: "number", min: 18}}\<close>. \<open>noWorkers\<close> is a worker pool that cannot
  start a worker.
\<close>

definition noWorkers :: workerPool where
  "noWorkers chunks st = Inl (Error ''no workers'')"

definition peopleHeaders :: "string list" where
  "peopleHeaders = [''id'', ''name'', ''age'']"

definition peopleRows :: "row list" where
  "peopleRows =
     [[(''id'', JStr ''1''), (''name'', JStr ''Alice''), (''age'', JStr ''30'')],
      [(''id'', JStr ''2''), (''name'', JStr ''Bob''), (''age'', JStr ''17'')]]"

definition plainOptions :: options where
  "plainOptions =
     \<lparr> opt_inputFilePath = Some ''people.csv'', opt_maxRowsPerFile = Some 10,
       opt_useMultipleProcesses = False, opt_processCount = None,
       opt_outputFormat = Some ''csv'', opt_transformations = None,
       opt_generateStats = False, opt_chunkSizeBytes = None \<rparr>"

definition noRule :: rule where
  "noRule = \<lparr> required = False, ruleType = None, minLength = None, maxLength = None,
              pattern = None, ruleMin = None, ruleMax = None, enum = None \<rparr>"


text \<open>
  Further configurations of the scenario: a validation whose pattern \<open>(\<close> is no
  regular expression, so that \<open>new RegExp\<close> throws for every row; statistics without
  any transformer (\<open>transformations: {}\<close>, \<open>generateStats: true\<close>); and a source
  whose only column is called \<open>toString\<close>.
\<close>

definition noTransformations :: transformations where
  "noTransformations =
     \<lparr> t_includeColumns = None, t_excludeColumns = None, t_typeConversions = None,
       t_validation = None \<rparr>"


definition statsOptions :: options where
  "statsOptions =
     plainOptions\<lparr>opt_transformations := Some noTransformations, opt_generateStats := True\<rparr>"

definition toStringRows :: "row list" where
  "toStringRows = [[(''toString'', JStr ''x'')], [(''toString'', JStr ''y'')]]"

text \<open>
  A pipeline for the scenario: keep \<open>name\<close> and \<open>age\<close>, then validate the age; and, for
  showing what is not called, a transformer that throws on every row.
\<close>

definition alwaysThrows :: transformer where
  "alwaysThrows = \<lparr> transform = (\<lambda>r hs. Inl (Error ''called'')), getOutputHeaders = None \<rparr>"

definition adultRules :: "(string \<times> rule) list" where
  "adultRules = [(''age'', noRule\<lparr>ruleType := Some ''number'', ruleMin := Some (Fin 18)\<rparr>)]"

definition adultPipeline :: TransformationPipeline where
  "adultPipeline =
     \<lparr> transformers = [columnFilter \<lparr> includeColumns = [''name'', ''age''], excludeColumns = [] \<rparr>,
                       dataValidator demoRuntime adultRules],
       aggregator = Some newAggregator \<rparr>"

text \<open>
  Two byte ranges of the file \<open>a,b\<close> / \<open>1,2\<close> / \<open>3,4\<close> / \<open>5,6\<close> (each line ended
  by a line feed): the first holds the header and the first row, the second starts at
  byte 8, at the beginning of the row \<open>3,4\<close>.
\<close>

definition firstChunk :: workerData where
  "firstChunk =
     \<lparr> startByte = 0, endByte = 7, chunkIndex = 0, wd_headers = [''a'', ''b''],
       wd_maxRowsPerFile = 10, wd_outputFormat = ''csv'', wd_transformations = None,
       wd_today = ''2026-01-01'' \<rparr>"

definition secondChunk :: workerData where
  "secondChunk = firstChunk\<lparr>startByte := 8, endByte := 15, chunkIndex := 1\<rparr>"

text \<open>Two rows as the TypeConverter leaves them, with a number and a boolean.\<close>

definition typedRows :: "row list" where
  "typedRows =
     [[(''name'', JStr ''Alice''), (''age'', JNum (Fin 30)), (''active'', JBool True)],
      [(''name'', JStr (''Bob, '' @ [DQUOTE] @ ''Bobby'' @ [DQUOTE])), (''age'', JNum (Fin 17)),
       (''active'', JNull)]]"

section \<open>A JSON reader\<close>

text \<open>
  Modelled from the spec: "parses as a single valid array" refers to a JSON parser, which
  is not part of the repository. The reader below follows the JSON grammar (RFC 8259)
  for the documents a row writer can produce: an array of objects whose members are
  strings, numbers, \<open>true\<close>, \<open>false\<close> or \<open>null\<close>. It accepts only texts that are valid
  JSON, and returns the objects of the array; a text with a nested member is outside its
  range and is refused. A number is returned as its literal.
\<close>

datatype token =
    TLBrace | TRBrace | TLBracket | TRBracket | TComma | TColon
  | TString string | TLiteral string

datatype lexstate =
    Between | InString string | Escaped string | Unicode string string | InWord string

definition jsonSpace :: "char \<Rightarrow> bool" where
  "jsonSpace c = (c = CHR 0x20 \<or> c = TAB \<or> c = LF \<or> c = CR)"

definition punct :: "char \<Rightarrow> token option" where
  "punct c =
     (if c = CHR ''{'' then Some TLBrace else if c = CHR ''}'' then Some TRBrace
      else if c = CHR ''['' then Some TLBracket else if c = CHR '']'' then Some TRBracket
      else if c = CHR '','' then Some TComma else if c = CHR '':'' then Some TColon
      else None)"

text \<open>The characters of numbers and of the three literal names.\<close>

definition wordChar :: "char \<Rightarrow> bool" where
  "wordChar c =
     (let n = (of_char c :: nat)
      in (48 \<le> n \<and> n \<le> 57) \<or> (65 \<le> n \<and> n \<le> 90) \<or> (97 \<le> n \<and> n \<le> 122)
         \<or> c = CHR ''-'' \<or> c = CHR ''+'' \<or> c = CHR ''.'')"

definition unescape :: "char \<Rightarrow> char option" where
  "unescape c =
     (if c = DQUOTE then Some DQUOTE else if c = BACKSLASH then Some BACKSLASH
      else if c = CHR ''/'' then Some CHR ''/''
      else if c = CHR ''b'' then Some (CHR 0x08) else if c = CHR ''f'' then Some (CHR 0x0C)
      else if c = CHR ''n'' then Some LF else if c = CHR ''r'' then Some CR
      else if c = CHR ''t'' then Some TAB else None)"

definition hexValue :: "char \<Rightarrow> nat option" where
  "hexValue c =
     (let n = (of_char c :: nat)
      in if 48 \<le> n \<and> n \<le> 57 then Some (n - 48)
         else if 97 \<le> n \<and> n \<le> 102 then Some (n - 87)
         else if 65 \<le> n \<and> n \<le> 70 then Some (n - 55)
         else None)"

definition consTok :: "token \<Rightarrow> token list option \<Rightarrow> token list option" where
  "consTok t r = map_option ((#) t) r"

text \<open>
  The lexer reads one character at a time. A \<open>\<bslash>uXXXX\<close> escape is read when it denotes
  a code unit of the model (below 256).
\<close>

fun hexNumber :: "string \<Rightarrow> nat option" where
  "hexNumber [] = Some 0"
| "hexNumber (c # cs) =
     (case hexValue c of None \<Rightarrow> None
      | Some d \<Rightarrow> map_option (\<lambda>n. d * 16 ^ length cs + n) (hexNumber cs))"

fun lex :: "lexstate \<Rightarrow> string \<Rightarrow> token list option" where
  "lex Between [] = Some []"
| "lex (InWord w) [] = Some [TLiteral w]"
| "lex (InString acc) [] = None"
| "lex (Escaped acc) [] = None"
| "lex (Unicode acc ds) [] = None"
| "lex Between (c # cs) =
     (if jsonSpace c then lex Between cs
      else if c = DQUOTE then lex (InString []) cs
      else if wordChar c then lex (InWord [c]) cs
      else case punct c of None \<Rightarrow> None | Some t \<Rightarrow> consTok t (lex Between cs))"
| "lex (InWord w) (c # cs) =
     (if wordChar c then lex (InWord (w @ [c])) cs
      else if jsonSpace c then consTok (TLiteral w) (lex Between cs)
      else case punct c of None \<Rightarrow> None
           | Some t \<Rightarrow> consTok (TLiteral w) (consTok t (lex Between cs)))"
| "lex (InString acc) (c # cs) =
     (if c = DQUOTE then consTok (TString acc) (lex Between cs)
      else if c = BACKSLASH then lex (Escaped acc) cs
      else if (of_char c :: nat) < 32 then None
      else lex (InString (acc @ [c])) cs)"
| "lex (Escaped acc) (c # cs) =
     (if c = CHR ''u'' then lex (Unicode acc []) cs
      else case unescape c of None \<Rightarrow> None | Some d \<Rightarrow> lex (InString (acc @ [d])) cs)"
| "lex (Unicode acc ds) (c # cs) =
     (if length ds < 3 then (if hexValue c = None then None else lex (Unicode acc (ds @ [c])) cs)
      else case hexNumber (ds @ [c]) of
             None \<Rightarrow> None
           | Some n \<Rightarrow> if n < 256 then lex (InString (acc @ [char_of n])) cs else None)"

text \<open>The shape of a number: \<open>-? (0 | [1-9][0-9]*) (. [0-9]+)? ([eE] [+-]? [0-9]+)?\<close>.\<close>

datatype numstate = NStart | NMinus | NZero | NInt | NDot | NFrac | NExp | NExpSign | NExpDigits

definition isDigit :: "char \<Rightarrow> bool" where
  "isDigit c = (48 \<le> (of_char c :: nat) \<and> (of_char c :: nat) \<le> 57)"

fun numShape :: "numstate \<Rightarrow> string \<Rightarrow> bool" where
  "numShape st [] = (st = NZero \<or> st = NInt \<or> st = NFrac \<or> st = NExpDigits)"
| "numShape st (c # cs) =
     (if st = NStart \<and> c = CHR ''-'' then numShape NMinus cs
      else if (st = NStart \<or> st = NMinus) \<and> c = CHR ''0'' then numShape NZero cs
      else if (st = NStart \<or> st = NMinus \<or> st = NInt) \<and> isDigit c then numShape NInt cs
      else if (st = NZero \<or> st = NInt) \<and> c = CHR ''.'' then numShape NDot cs
      else if (st = NDot \<or> st = NFrac) \<and> isDigit c then numShape NFrac cs
      else if (st = NZero \<or> st = NInt \<or> st = NFrac) \<and> (c = CHR ''e'' \<or> c = CHR ''E'')
        then numShape NExp cs
      else if st = NExp \<and> (c = CHR ''+'' \<or> c = CHR ''-'') then numShape NExpSign cs
      else if (st = NExp \<or> st = NExpSign \<or> st = NExpDigits) \<and> isDigit c
        then numShape NExpDigits cs
      else False)"

definition isJsonNumber :: "string \<Rightarrow> bool" where
  "isJsonNumber w = (w \<noteq> [] \<and> list_all wordChar w \<and> numShape NStart w)"

definition isJsonLiteral :: "string \<Rightarrow> bool" where
  "isJsonLiteral w = (w = ''true'' \<or> w = ''false'' \<or> w = ''null'' \<or> isJsonNumber w)"

text \<open>The parser reads one token at a time; it collects the members of the open object
  and the objects of the array.\<close>

datatype scalar = SString string | SLiteral string

type_synonym jsonObject = "(string \<times> scalar) list"

datatype pstate =
    PStart | PArrayOpen | PArrayComma | PElem | PObjOpen | PObjComma
  | PKey string | PColon string | PMember | PEnd

fun parseTokens :: "pstate \<Rightarrow> jsonObject list \<Rightarrow> jsonObject \<Rightarrow> token list \<Rightarrow> jsonObject list option" where
  "parseTokens st objs ms [] = (if st = PEnd then Some objs else None)"
| "parseTokens st objs ms (t # ts) =
     (if st = PStart \<and> t = TLBracket then parseTokens PArrayOpen objs ms ts
      else if st = PArrayOpen \<and> t = TRBracket then parseTokens PEnd objs ms ts
      else if (st = PArrayOpen \<or> st = PArrayComma) \<and> t = TLBrace then parseTokens PObjOpen objs [] ts
      else if st = PObjOpen \<and> t = TRBrace then parseTokens PElem (objs @ [[]]) [] ts
      else if st = PMember \<and> t = TRBrace then parseTokens PElem (objs @ [ms]) [] ts
      else if st = PMember \<and> t = TComma then parseTokens PObjComma objs ms ts
      else if st = PElem \<and> t = TComma then parseTokens PArrayComma objs ms ts
      else if st = PElem \<and> t = TRBracket then parseTokens PEnd objs ms ts
      else case (st, t) of
        (PObjOpen, TString k) \<Rightarrow> parseTokens (PKey k) objs ms ts
      | (PObjComma, TString k) \<Rightarrow> parseTokens (PKey k) objs ms ts
      | (PKey k, TColon) \<Rightarrow> parseTokens (PColon k) objs ms ts
      | (PColon k, TString s) \<Rightarrow> parseTokens PMember objs (ms @ [(k, SString s)]) ts
      | (PColon k, TLiteral w) \<Rightarrow>
          (if isJsonLiteral w then parseTokens PMember objs (ms @ [(k, SLiteral w)]) ts else None)
      | _ \<Rightarrow> None)"

definition readJSONArray :: "string \<Rightarrow> jsonObject list option" where
  "readJSONArray text =
     (case lex Between text of None \<Rightarrow> None | Some ts \<Rightarrow> parseTokens PStart [] [] ts)"

text \<open>What a row is as a JSON object: the members \<open>JSON.stringify\<close> writes.\<close>

fun scalarOf :: "js_runtime \<Rightarrow> jsval \<Rightarrow> scalar" where
  "scalarOf rt (JStr s) = SString s"
| "scalarOf rt (JNum (Fin q)) = SLiteral (numToString rt (Fin q))"
| "scalarOf rt (JNum n) = SLiteral ''null''"
| "scalarOf rt (JBool b) = SLiteral (if b then ''true'' else ''false'')"
| "scalarOf rt JNull = SLiteral ''null''"
| "scalarOf rt JUndefined = SLiteral ''null''"

definition jsonOf :: "js_runtime \<Rightarrow> row \<Rightarrow> jsonObject" where
  "jsonOf rt r =
     map (\<lambda>(k, v). (k, scalarOf rt v)) (filter (\<lambda>(k, v). v \<noteq> JUndefined) (ownEntries r))"


text \<open>The tokens of the text that \<open>JSON.stringify\<close> writes for a row.\<close>

definition prependToks :: "token list \<Rightarrow> token list option \<Rightarrow> token list option" where
  "prependToks ts r = map_option ((@) ts) r"

fun joinToks :: "token list list \<Rightarrow> token list" where
  "joinToks [] = []"
| "joinToks [x] = x"
| "joinToks (x # y # ys) = x @ TComma # joinToks (y # ys)"

definition valueToken :: "js_runtime \<Rightarrow> jsval \<Rightarrow> token" where
  "valueToken rt v = (case v of JStr s \<Rightarrow> TString s | _ \<Rightarrow> TLiteral (serializeJSONValue rt v))"

definition memberTokens :: "js_runtime \<Rightarrow> string \<times> jsval \<Rightarrow> token list" where
  "memberTokens rt kv = [TString (fst kv), TColon, valueToken rt (snd kv)]"

definition objectTokens :: "js_runtime \<Rightarrow> row \<Rightarrow> token list" where
  "objectTokens rt r =
     TLBrace # joinToks (map (memberTokens rt) (filter (\<lambda>(k, v). v \<noteq> JUndefined) (ownEntries r)))
       @ [TRBrace]"

text \<open>The finite numbers among the values of a row are rendered as JSON numbers.\<close>

definition rowNumbersOK :: "js_runtime \<Rightarrow> row \<Rightarrow> bool" where
  "rowNumbersOK rt r =
     list_all (\<lambda>(k, v). case v of JNum (Fin q) \<Rightarrow> isJsonNumber (numToString rt (Fin q))
                          | _ \<Rightarrow> True) r"

definition numbersAsJSON :: "js_runtime \<Rightarrow> row list \<Rightarrow> bool" where
  "numbersAsJSON rt rows = list_all (rowNumbersOK rt) rows"

definition memberText :: "js_runtime \<Rightarrow> string \<times> jsval \<Rightarrow> string" where
  "memberText rt kv = quoteJSONString (fst kv) @ '':'' @ serializeJSONValue rt (snd kv)"

definition goodMember :: "js_runtime \<Rightarrow> string \<times> jsval \<Rightarrow> bool" where
  "goodMember rt kv =
     (snd kv \<noteq> JUndefined
      \<and> (case snd kv of JNum (Fin q) \<Rightarrow> isJsonNumber (numToString rt (Fin q)) | _ \<Rightarrow> True))"

section \<open>The comma-format writer and reader\<close>

lemma special_distinct:
  "DQUOTE \<noteq> CHR '',''" "DQUOTE \<noteq> LF" "DQUOTE \<noteq> CR" "LF \<noteq> CHR '',''" "CR \<noteq> CHR '',''" "LF \<noteq> CR"
  "CHR '','' \<noteq> DQUOTE" "LF \<noteq> DQUOTE" "CHR '','' \<noteq> LF" "CR \<noteq> LF" "CR \<noteq> DQUOTE"
  by (simp_all add: DQUOTE_def LF_def CR_def)

lemma read_unquoted_run:
  "\<forall>c \<in> set s. c \<noteq> CHR '','' \<and> c \<noteq> DQUOTE \<and> c \<noteq> LF \<and> c \<noteq> CR \<Longrightarrow>
   csvRead Unquoted cur flds (s @ rest) = csvRead Unquoted (cur @ s) flds rest"
  by (induction s arbitrary: cur) simp_all

lemma read_plain_start:
  assumes "\<forall>c \<in> set s. c \<noteq> CHR '','' \<and> c \<noteq> DQUOTE \<and> c \<noteq> LF \<and> c \<noteq> CR"
    and "st = RecordStart \<or> st = FieldStart" and "s \<noteq> []"
  shows "csvRead st [] flds (s @ rest) = csvRead Unquoted s flds rest"
proof (cases s)
  case Nil
  with assms show ?thesis by simp
next
  case (Cons c cs)
  with assms have "csvRead st [] flds (s @ rest) = csvRead Unquoted [c] flds (cs @ rest)"
    by auto
  also have "\<dots> = csvRead Unquoted ([c] @ cs) flds rest"
    using assms(1) Cons by (intro read_unquoted_run) simp
  finally show ?thesis using Cons by simp
qed

lemma stripCR_plain: "CR \<notin> set s \<Longrightarrow> stripCR s = s"
proof (cases "s = []")
  case True
  then show ?thesis by (simp add: stripCR_def)
next
  case False
  assume "CR \<notin> set s"
  with False last_in_set [of s] have "last s \<noteq> CR" by metis
  then show ?thesis by (simp add: stripCR_def)
qed

lemma read_quoted_body:
  "csvRead Quoted cur flds (replaceAll DQUOTE [DQUOTE, DQUOTE] s @ DQUOTE # rest)
     = csvRead QuoteSeen (cur @ s) flds rest"
  by (induction s arbitrary: cur) (simp_all add: replaceAll_def)

lemma read_field_comma:
  assumes st: "st = RecordStart \<or> st = FieldStart"
  shows "csvRead st [] flds (escapeCSVValue rt (JStr s) @ CHR '','' # rest)
           = csvRead FieldStart [] (flds @ [s]) rest"
proof (cases "str_includes s CHR '','' \<or> str_includes s DQUOTE \<or> str_includes s LF \<or> str_includes s CR")
  case True
  then have "escapeCSVValue rt (JStr s) = DQUOTE # replaceAll DQUOTE [DQUOTE, DQUOTE] s @ [DQUOTE]"
    by (simp add: escapeCSVValue_def)
  then show ?thesis
    using st read_quoted_body [of "[]" flds s "CHR '','' # rest"]
    by (auto simp: special_distinct)
next
  case False
  then have e: "escapeCSVValue rt (JStr s) = s"
    by (simp add: escapeCSVValue_def)
  from False have p: "\<forall>c \<in> set s. c \<noteq> CHR '','' \<and> c \<noteq> DQUOTE \<and> c \<noteq> LF \<and> c \<noteq> CR"
    by (auto simp: str_includes_def)
  show ?thesis
  proof (cases "s = []")
    case True
    with st e show ?thesis by (auto simp: special_distinct)
  next
    case False
    with st e p read_plain_start [of s st flds "CHR '','' # rest"]
    show ?thesis by (simp add: special_distinct)
  qed
qed

lemma read_field_LF:
  assumes st: "st = RecordStart \<or> st = FieldStart"
  shows "csvRead st [] flds (escapeCSVValue rt (JStr s) @ LF # rest)
           = (flds @ [s]) # csvRead RecordStart [] [] rest"
proof (cases "str_includes s CHR '','' \<or> str_includes s DQUOTE \<or> str_includes s LF \<or> str_includes s CR")
  case True
  then have "escapeCSVValue rt (JStr s) = DQUOTE # replaceAll DQUOTE [DQUOTE, DQUOTE] s @ [DQUOTE]"
    by (simp add: escapeCSVValue_def)
  then show ?thesis
    using st read_quoted_body [of "[]" flds s "LF # rest"]
    by (auto simp: special_distinct)
next
  case False
  then have e: "escapeCSVValue rt (JStr s) = s"
    by (simp add: escapeCSVValue_def)
  from False have p: "\<forall>c \<in> set s. c \<noteq> CHR '','' \<and> c \<noteq> DQUOTE \<and> c \<noteq> LF \<and> c \<noteq> CR"
    by (auto simp: str_includes_def)
  then have cr: "CR \<notin> set s" by auto
  show ?thesis
  proof (cases "s = []")
    case True
    with st e show ?thesis by (auto simp: special_distinct)
  next
    case False
    with st e p read_plain_start [of s st flds "LF # rest"] stripCR_plain [OF cr]
    show ?thesis by (simp add: special_distinct)
  qed
qed

lemma read_record:
  assumes "st = RecordStart \<or> st = FieldStart"
  shows "csvRead st [] flds (join '','' (map (\<lambda>s. escapeCSVValue rt (JStr s)) (v # vs)) @ LF # rest)
           = (flds @ v # vs) # csvRead RecordStart [] [] rest"
  using assms
proof (induction vs arbitrary: v flds st)
  case Nil
  then show ?case using read_field_LF [of st flds rt v rest] by simp
next
  case (Cons w ws)
  have "csvRead st [] flds (join '','' (map (\<lambda>s. escapeCSVValue rt (JStr s)) (v # w # ws)) @ LF # rest)
      = csvRead st [] flds (escapeCSVValue rt (JStr v) @ CHR '','' #
           (join '','' (map (\<lambda>s. escapeCSVValue rt (JStr s)) (w # ws)) @ LF # rest))"
    by simp
  also have "\<dots> = csvRead FieldStart [] (flds @ [v])
           (join '','' (map (\<lambda>s. escapeCSVValue rt (JStr s)) (w # ws)) @ LF # rest)"
    using Cons.prems by (rule read_field_comma)
  also have "\<dots> = ((flds @ [v]) @ w # ws) # csvRead RecordStart [] [] rest"
    by (rule Cons.IH) simp
  finally show ?case by simp
qed

text \<open>
  C7. For every string value the comma-format writer (\<open>escapeCSVValue\<close>) wraps the
  value in double quotes and doubles each embedded double quote exactly when the value
  contains a comma, a double quote, a line feed or a carriage return, and otherwise writes
  it unchanged. A standard comma-format reader gives the value back: for a single field,
  and for every record of one or more string fields as \<open>writeRow\<close> joins them. In
  particular the one-field row whose value is \<open>He said "hi", then left\<close> followed by a
  line feed is read back unchanged from what \<open>CSVFormatter.writeRow\<close> writes.
\<close>

theorem csv_writer_round_trip:
  "escapeCSVValue rt (JStr s) =
     (if CHR '','' \<in> set s \<or> DQUOTE \<in> set s \<or> LF \<in> set s \<or> CR \<in> set s
      then [DQUOTE] @ concat (map (\<lambda>c. if c = DQUOTE then [DQUOTE, DQUOTE] else [c]) s) @ [DQUOTE]
      else s)
   \<and> readCSV (escapeCSVValue rt (JStr s) @ [LF]) = [[s]]
   \<and> readCSV (join '','' (map (\<lambda>x. escapeCSVValue rt (JStr x)) (v # vs)) @ [LF]) = [v # vs]
   \<and> readCSV (CSVFormatter_writeRow rt
                 [(''quote'', JStr (''He said '' @ [DQUOTE] @ ''hi'' @ [DQUOTE] @ '', then left'' @ [LF]))]
                 [''quote''])
       = [[''He said '' @ [DQUOTE] @ ''hi'' @ [DQUOTE] @ '', then left'' @ [LF]]]"
proof -
  have shape: "escapeCSVValue rt (JStr s) =
     (if CHR '','' \<in> set s \<or> DQUOTE \<in> set s \<or> LF \<in> set s \<or> CR \<in> set s
      then [DQUOTE] @ concat (map (\<lambda>c. if c = DQUOTE then [DQUOTE, DQUOTE] else [c]) s) @ [DQUOTE]
      else s)"
    by (simp add: escapeCSVValue_def str_includes_def replaceAll_def)
  have whole: "readCSV (join '','' (map (\<lambda>x. escapeCSVValue rt (JStr x)) (w # ws)) @ [LF]) = [w # ws]"
    for w ws
    using read_record [of RecordStart "[]" rt w ws "[]"] by (simp add: readCSV_def)
  have single: "readCSV (escapeCSVValue rt (JStr s) @ [LF]) = [[s]]"
    using whole [of s "[]"] by simp
  have example: "readCSV (CSVFormatter_writeRow rt [(''quote'', JStr x)] [''quote'']) = [[x]]"
    if "x \<noteq> []" for x
    using that whole [of x "[]"]
    by (simp add: CSVFormatter_writeRow_def csvRowValues_def getProp_def js_or_def)
  show ?thesis
    using shape single whole [of v vs]
      example [of "''He said '' @ [DQUOTE] @ ''hi'' @ [DQUOTE] @ '', then left'' @ [LF]"]
    by simp
qed

section \<open>Falsy field values in the delimited-text writers\<close>

lemma falsy_cases:
  "\<not> truthy v \<longleftrightarrow>
     v = JUndefined \<or> v = JNull \<or> v = JBool False \<or> v = JNum (Fin 0) \<or> v = JNum NaN \<or> v = JStr []"
  by (cases v) auto

lemma falsy_or_empty: "\<not> truthy v \<Longrightarrow> js_or v (JStr []) = JStr []"
  by (simp add: js_or_def)

lemma convert_number_zero:
  assumes "parseFloat rt s = NaN \<or> parseFloat rt s = Fin 0"
  shows "convertValue rt ''number'' (JStr s) = Some (JNum (Fin 0))"
proof -
  have "js_toLowerCase ''number'' = ''number''" by code_simp
  with assms show ?thesis
    by (auto simp: convertValue_def js_or_def Let_def)
qed

text \<open>
  C9. In the delimited-text formats a field whose value is falsy (\<open>undefined\<close>, \<open>null\<close>,
  \<open>false\<close>, the number \<open>0\<close>, \<open>NaN\<close> or the empty string) is rendered as the empty
  string: the entry of \<open>rowValues\<close> for it is empty, for the comma and for the tab format,
  in the formatters' \<open>writeRow\<close> as in \<open>writeRowSync\<close>, which join the same
  \<open>rowValues\<close> (the last two equations). So a field that the TypeConverter has turned into the number \<open>0\<close>
  (here: a text that \<open>parseFloat\<close> reads as \<open>0\<close> or cannot read, converted to
  \<open>number\<close>) is written by \<open>CSVFormatter.writeRow\<close> as an empty field: the line of
  that one-column row is just the line feed.
\<close>

theorem falsy_field_written_empty:
  assumes "i < length hs" and "\<not> truthy (getProp r (hs ! i))"
    and "s \<noteq> []" and "parseFloat rt s = NaN \<or> parseFloat rt s = Fin 0"
  shows "csvRowValues rt r hs ! i = []
       \<and> tsvRowValues rt r hs ! i = []
       \<and> (getProp r (hs ! i) \<in> {JUndefined, JNull, JBool False, JNum (Fin 0), JNum NaN, JStr []})
       \<and> DataTypeConverter_transform rt [(c, ''number'')] [(c, JStr s)] hs = [(c, JNum (Fin 0))]
       \<and> CSVFormatter_writeRow rt
            (DataTypeConverter_transform rt [(c, ''number'')] [(c, JStr s)] hs) [c] = [LF]
       \<and> writeRowSync rt (st\<lparr>outputFormat := ''csv''\<rparr>) r
           = streamWrite (st\<lparr>outputFormat := ''csv''\<rparr>)
               (join '','' (csvRowValues rt r (outputHeaders st)) @ [LF])
       \<and> writeRowSync rt (st\<lparr>outputFormat := ''tsv''\<rparr>) r
           = streamWrite (st\<lparr>outputFormat := ''tsv''\<rparr>)
               (join [TAB] (tsvRowValues rt r (outputHeaders st)) @ [LF])"
proof -
  from assms(2) have e: "js_or (getProp r (hs ! i)) (JStr []) = JStr []"
    by (rule falsy_or_empty)
  have a: "csvRowValues rt r hs ! i = []"
    using assms(1) e by (simp add: csvRowValues_def escapeCSVValue_def str_includes_def)
  have b: "tsvRowValues rt r hs ! i = []"
    using assms(1) e by (simp add: tsvRowValues_def escapeTSVValue_def replaceAll_def)
  have k: "getProp r (hs ! i) \<in> {JUndefined, JNull, JBool False, JNum (Fin 0), JNum NaN, JStr []}"
    using assms(2) falsy_cases [of "getProp r (hs ! i)"] by auto
  have t: "DataTypeConverter_transform rt [(c, ''number'')] [(c, JStr s)] hs = [(c, JNum (Fin 0))]"
    using assms(3) convert_number_zero [OF assms(4)]
    by (simp add: DataTypeConverter_transform_def getProp_def)
  have w: "CSVFormatter_writeRow rt [(c, JNum (Fin 0))] [c] = [LF]"
    by (simp add: CSVFormatter_writeRow_def csvRowValues_def getProp_def js_or_def
        escapeCSVValue_def str_includes_def)
  have y: "writeRowSync rt (st\<lparr>outputFormat := ''csv''\<rparr>) r
           = streamWrite (st\<lparr>outputFormat := ''csv''\<rparr>)
               (join '','' (csvRowValues rt r (outputHeaders st)) @ [LF])"
    by (simp add: writeRowSync_def)
  have z: "writeRowSync rt (st\<lparr>outputFormat := ''tsv''\<rparr>) r
           = streamWrite (st\<lparr>outputFormat := ''tsv''\<rparr>)
               (join [TAB] (tsvRowValues rt r (outputHeaders st)) @ [LF])"
    by (simp add: writeRowSync_def)
  from a b k t w y z show ?thesis by simp
qed

theorem falsy_field_written_empty_witness:
  "csvRowValues demoRuntime [(''id'', JStr ''7''), (''n'', JNum (Fin 0))] [''id'', ''n''] ! 1 = []
   \<and> tsvRowValues demoRuntime [(''id'', JStr ''7''), (''n'', JNum (Fin 0))] [''id'', ''n''] ! 1 = []
   \<and> CSVFormatter_writeRow demoRuntime
        (DataTypeConverter_transform demoRuntime [(''n'', ''number'')] [(''n'', JStr ''0'')]
           [''id'', ''n'']) [''n''] = [LF]"
proof -
  have h1: "(1::nat) < length [''id'', ''n'']" by simp
  have h2: "\<not> truthy (getProp [(''id'', JStr ''7''), (''n'', JNum (Fin 0))] ([''id'', ''n''] ! 1))"
    by (simp add: getProp_def)
  have h3: "''0'' \<noteq> []" by simp
  have h4: "parseFloat demoRuntime ''0'' = NaN \<or> parseFloat demoRuntime ''0'' = Fin 0"
    by (simp add: demoRuntime_def readNum_def)
  note t = falsy_field_written_empty [OF h1 h2 h3 h4, where c = "''n''"]
  from t [THEN conjunct1] t [THEN conjunct2, THEN conjunct1]
    t [THEN conjunct2, THEN conjunct2, THEN conjunct2, THEN conjunct2, THEN conjunct1]
  show ?thesis by simp
qed

section \<open>The split engine: the output files of a sequential run\<close>

lemma streamWrite_empty: "streamWrite st [] = st"
  by (simp add: streamWrite_def split: option.splits)


lemma streamEnd_snoc:
  assumes "files st = cl @ [cur]" and "currentOutputStream st = Some (length cl)"
  shows "streamEnd st = st\<lparr>files := cl @ [cur\<lparr>ended := True, records := currentRowCount st\<rparr>]\<rparr>"
  using assms by (simp add: streamEnd_def)

lemma writeRowSync_is_write: "\<exists>t. writeRowSync rt st r = streamWrite st t"
  unfolding writeRowSync_def using streamWrite_empty [of st] by metis








subsection \<open>The outcome of the pipeline for a row\<close>

lemma setProp_names:
  "map fst (setProp obj k v) = (if k \<in> set (map fst obj) then map fst obj else map fst obj @ [k])"
  by (induction obj) (force intro: rev_image_eqI)+

lemma setProp_keys: "set (map fst (setProp obj k v)) = insert k (set (map fst obj))"
  unfolding setProp_names by auto

lemma inherited_plain:
  assumes "plainStats a"
  shows "inherited (stats a) h \<longleftrightarrow> h \<in> set objectPrototypeMembers"
proof
  assume "inherited (stats a) h"
  then show "h \<in> set objectPrototypeMembers" by (simp add: inherited_def)
next
  assume h: "h \<in> set objectPrototypeMembers"
  have "map_of (stats a) h = None"
  proof (rule ccontr)
    assume "map_of (stats a) h \<noteq> None"
    then obtain v where "map_of (stats a) h = Some v" by auto
    then have "(h, v) \<in> set (stats a)" by (rule map_of_SomeD)
    with assms have "h \<notin> set objectPrototypeMembers"
      by (auto simp: plainStats_def list_all_iff)
    with h show False by simp
  qed
  with h show "inherited (stats a) h" by (simp add: inherited_def)
qed

lemma plainStats_setProp:
  assumes "plainStats a" and "h \<notin> set objectPrototypeMembers"
  shows "plainStats (a\<lparr>stats := setProp (stats a) h v\<rparr>)"
proof -
  have "k \<notin> set objectPrototypeMembers" if "k \<in> set (map fst (setProp (stats a) h v))" for k
  proof -
    from that have "k = h \<or> k \<in> set (map fst (stats a))" unfolding setProp_keys by simp
    with assms show ?thesis by (auto simp: plainStats_def list_all_iff)
  qed
  then show ?thesis by (auto simp: plainStats_def list_all_iff)
qed

lemma Aggregator_forEach_outcome:
  assumes "plainStats a"
  shows "fst (Aggregator_forEach rt r a hs) = (if aggregatorThrows r hs then Some TypeError else None)
       \<and> plainStats (snd (Aggregator_forEach rt r a hs))"
  using assms
proof (induction hs arbitrary: a)
  case Nil
  then show ?case by (simp add: aggregatorThrows_def)
next
  case (Cons h hs)
  show ?case
  proof (cases "h \<in> set objectPrototypeMembers")
    case True
    with Cons.prems have i: "inherited (stats a) h" by (simp add: inherited_plain)
    show ?thesis
    proof (cases "\<not> inherited r h
                  \<and> (getProp r h = JNull \<or> getProp r h = JUndefined \<or> getProp r h = JStr [])")
      case True
      with i have e: "Aggregator_forEach rt r a (h # hs) = Aggregator_forEach rt r a hs" by simp
      from True \<open>h \<in> set objectPrototypeMembers\<close>
      have "aggregatorThrows r (h # hs) = aggregatorThrows r hs"
        by (auto simp: aggregatorThrows_def inherited_def)
      with Cons.IH [OF Cons.prems] e show ?thesis by simp
    next
      case False
      with i have e: "Aggregator_forEach rt r a (h # hs) = (Some TypeError, a)" by auto
      from False \<open>h \<in> set objectPrototypeMembers\<close>
      have "aggregatorThrows r (h # hs)"
        by (auto simp: aggregatorThrows_def inherited_def)
      with e Cons.prems show ?thesis by simp
    qed
  next
    case False
    then have i: "\<not> inherited (stats a) h" by (simp add: inherited_def)
    define v where "v = observeValue rt (case map_of (stats a) h of
                          None \<Rightarrow> \<lparr> count = 0, nullCount = 0, uniqueValues = [],
                                     numericValues = [], minLen = None, maxLen = 0 \<rparr>
                        | Some st \<Rightarrow> st) (getProp r h)"
    from i have e: "Aggregator_forEach rt r a (h # hs)
                      = Aggregator_forEach rt r (a\<lparr>stats := setProp (stats a) h v\<rparr>) hs"
      by (simp add: v_def Let_def)
    from False have "aggregatorThrows r (h # hs) = aggregatorThrows r hs"
      by (simp add: aggregatorThrows_def)
    with Cons.IH [OF plainStats_setProp [OF Cons.prems False, of v]] e show ?thesis by simp
  qed
qed

lemma Aggregator_process_outcome:
  assumes "plainStats a"
  shows "fst (Aggregator_process rt a r hs) = (if aggregatorThrows r hs then Some TypeError else None)"
    and "plainStats (snd (Aggregator_process rt a r hs))"
proof -
  from assms have "plainStats (a\<lparr>rowCount := rowCount a + 1\<rparr>)" by (simp add: plainStats_def)
  from Aggregator_forEach_outcome [OF this, of rt r hs]
  show "fst (Aggregator_process rt a r hs) = (if aggregatorThrows r hs then Some TypeError else None)"
    and "plainStats (snd (Aggregator_process rt a r hs))"
    by (simp_all add: Aggregator_process_def)
qed






subsection \<open>The content of the output files\<close>




lemma settings_pipeline [simp]:
  "settings (st\<lparr>transformationPipeline := x\<rparr>) = settings st"
  by (simp add: settings_def)



lemma plainPipeline_pipeline:
  "plainPipeline (st\<lparr>transformationPipeline := Some p\<rparr>)
     = (case aggregator p of None \<Rightarrow> True | Some a \<Rightarrow> plainStats a)"
  by (simp add: plainPipeline_def)









subsection \<open>How the rows are distributed over the files\<close>





lemma ended_filesFrom: "list_all ended (filesFrom rt st i gs)"
  by (induction gs arbitrary: i) (simp_all add: fileOf_def)




subsection \<open>Sequential runs of \<open>process\<close>\<close>







lemma aggregatorThrows_plain_headers:
  "set hs \<inter> set objectPrototypeMembers = {} \<Longrightarrow> \<not> aggregatorThrows r hs"
  by (auto simp: aggregatorThrows_def list_ex_iff)




lemma plain_formatter:
  "createFormatter (outputFormat (CSVParser_new (plainOptions\<lparr>opt_maxRowsPerFile := k, opt_transformations := t\<rparr>) d))
     = Inr CSVFormatter"
  by (simp add: CSVParser_new_def plainOptions_def createFormatter_def js_toLowerCase_def
      lowerChar_def)

subsection \<open>What the files hold\<close>











section \<open>Row accounting and file sizes of sequential runs\<close>







section \<open>The columnar-surrogate format in sequential mode, and the configuration checks\<close>






subsection \<open>The partitioning loop\<close>
















section \<open>The transformation pipeline\<close>

lemma applyTransformers_chain:
  assumes "k \<le> length ts" and "length rs = Suc k"
    and "\<forall>i<k. transform (ts ! i) (rs ! i) hs = Inr (Some (rs ! Suc i))"
  shows "applyTransformers ts (rs ! 0) hs = applyTransformers (drop k ts) (rs ! k) hs"
  using assms
proof (induction k arbitrary: ts rs)
  case 0
  then show ?case by simp
next
  case (Suc k)
  from Suc.prems(1) obtain t ts' where ts: "ts = t # ts'" by (cases ts) auto
  from Suc.prems(2) obtain r0 rs' where rs: "rs = r0 # rs'" by (cases rs) auto
  from Suc.prems(3) [rule_format, of 0] ts rs
  have t0: "transform t r0 hs = Inr (Some (rs' ! 0))" by simp
  have step: "\<forall>i<k. transform (ts' ! i) (rs' ! i) hs = Inr (Some (rs' ! Suc i))"
  proof (intro allI impI)
    fix i assume "i < k"
    with Suc.prems(3) [rule_format, of "Suc i"] ts rs
    show "transform (ts' ! i) (rs' ! i) hs = Inr (Some (rs' ! Suc i))" by simp
  qed
  from Suc.prems ts rs have "k \<le> length ts'" "length rs' = Suc k" by simp_all
  from Suc.IH [OF this step] t0 ts rs show ?case by simp
qed

lemma pipeline_stages_in_order:
  assumes "k \<le> length (transformers p)" and "length rs = Suc k" and "rs ! 0 = r"
    and "\<forall>i<k. transform (transformers p ! i) (rs ! i) hs = Inr (Some (rs ! Suc i))"
  shows "(k = length (transformers p) \<longrightarrow>
            Pipeline_transform rt p r hs
              = (case aggregator p of
                   None \<Rightarrow> (Inr (Some (rs ! k)), p)
                 | Some ag \<Rightarrow>
                     (case Aggregator_process rt ag (rs ! k) hs of
                        (Some e, ag') \<Rightarrow> (Inl e, p\<lparr>aggregator := Some ag'\<rparr>)
                      | (None, ag') \<Rightarrow> (Inr (Some (rs ! k)), p\<lparr>aggregator := Some ag'\<rparr>))))
       \<and> (k < length (transformers p) \<and> transform (transformers p ! k) (rs ! k) hs = Inr None \<longrightarrow>
            Pipeline_transform rt p r hs = (Inr None, p)
            \<and> Pipeline_transform rt (p\<lparr>transformers := take (Suc k) (transformers p) @ others\<rparr>) r hs
                = (Inr None, p\<lparr>transformers := take (Suc k) (transformers p) @ others\<rparr>))"
proof -
  note c = applyTransformers_chain [OF assms(1,2,4)]
  have a: "Pipeline_transform rt p r hs
              = (case aggregator p of
                   None \<Rightarrow> (Inr (Some (rs ! k)), p)
                 | Some ag \<Rightarrow>
                     (case Aggregator_process rt ag (rs ! k) hs of
                        (Some e, ag') \<Rightarrow> (Inl e, p\<lparr>aggregator := Some ag'\<rparr>)
                      | (None, ag') \<Rightarrow> (Inr (Some (rs ! k)), p\<lparr>aggregator := Some ag'\<rparr>)))"
    if "k = length (transformers p)"
  proof -
    from c that assms(3) have "applyTransformers (transformers p) r hs = Inr (Some (rs ! k))"
      by simp
    then show ?thesis by (simp add: Pipeline_transform_def)
  qed
  have b: "Pipeline_transform rt p r hs = (Inr None, p)"
    if "k < length (transformers p)" "transform (transformers p ! k) (rs ! k) hs = Inr None"
  proof -
    from that(1) have "drop k (transformers p) = transformers p ! k # drop (Suc k) (transformers p)"
      by (rule Cons_nth_drop_Suc [symmetric])
    with c that(2) assms(3) have "applyTransformers (transformers p) r hs = Inr None" by simp
    then show ?thesis by (simp add: Pipeline_transform_def)
  qed
  have d: "Pipeline_transform rt (p\<lparr>transformers := take (Suc k) (transformers p) @ others\<rparr>) r hs
                = (Inr None, p\<lparr>transformers := take (Suc k) (transformers p) @ others\<rparr>)"
    if lt: "k < length (transformers p)" and n: "transform (transformers p ! k) (rs ! k) hs = Inr None"
  proof -
    let ?ts = "take (Suc k) (transformers p) @ others"
    from lt have len: "k \<le> length ?ts" by simp
    have nth: "?ts ! i = transformers p ! i" if "i \<le> k" for i
      using that lt by (simp add: nth_append)
    have ch: "\<forall>i<k. transform (?ts ! i) (rs ! i) hs = Inr (Some (rs ! Suc i))"
      using assms(4) nth by simp
    from lt have "k < length ?ts" by simp
    then have "drop k ?ts = ?ts ! k # drop (Suc k) ?ts"
      by (rule Cons_nth_drop_Suc [symmetric])
    with applyTransformers_chain [OF len assms(2) ch] n nth [of k] assms(3)
    have "applyTransformers ?ts r hs = Inr None" by simp
    then show ?thesis by (simp add: Pipeline_transform_def)
  qed
  from a b d show ?thesis by blast
qed

lemma aggregator_passes_plain_headers:
  assumes "plainStats ag" and "set hs \<inter> set objectPrototypeMembers = {}"
  shows "fst (Aggregator_process rt ag r hs) = None"
  using Aggregator_process_outcome(1) [OF assms(1), of rt r hs]
    aggregatorThrows_plain_headers [OF assms(2), of r]
  by simp

text \<open>
  The pipeline of the scenario on its two rows: Alice passes both transformers and is
  counted by the Aggregator as the filtered row; Bob is dropped by the second transformer,
  and a third one that would throw is never called.
\<close>

lemma pipeline_stages_example:
  "Pipeline_transform demoRuntime adultPipeline (peopleRows ! 0) peopleHeaders
     = (Inr (Some [(''name'', JStr ''Alice''), (''age'', JStr ''30'')]),
        adultPipeline\<lparr>aggregator := Some (snd (Aggregator_process demoRuntime newAggregator
                          [(''name'', JStr ''Alice''), (''age'', JStr ''30'')] peopleHeaders))\<rparr>)
   \<and> Pipeline_transform demoRuntime
         (adultPipeline\<lparr>transformers := take (Suc 1) (transformers adultPipeline) @ [alwaysThrows]\<rparr>)
         (peopleRows ! 1) peopleHeaders
     = (Inr None,
        adultPipeline\<lparr>transformers := take (Suc 1) (transformers adultPipeline) @ [alwaysThrows]\<rparr>)"
proof -
  let ?alice = "[peopleRows ! 0, [(''name'', JStr ''Alice''), (''age'', JStr ''30'')],
                 [(''name'', JStr ''Alice''), (''age'', JStr ''30'')]]"
  let ?bob = "[peopleRows ! 1, [(''name'', JStr ''Bob''), (''age'', JStr ''17'')]]"
  have l: "length (transformers adultPipeline) = 2" by (simp add: adultPipeline_def)
  have a1: "(2::nat) \<le> length (transformers adultPipeline)" using l by simp
  have a2: "length ?alice = Suc 2" by simp
  have a3: "?alice ! 0 = peopleRows ! 0" by simp
  have a4: "\<forall>i<2. transform (transformers adultPipeline ! i) (?alice ! i) peopleHeaders
                      = Inr (Some (?alice ! Suc i))"
  proof (intro allI impI)
    fix i :: nat assume "i < 2"
    then have "i = 0 \<or> i = 1" by auto
    moreover have "transform (transformers adultPipeline ! 0) (?alice ! 0) peopleHeaders
                     = Inr (Some (?alice ! Suc 0))" by code_simp
    moreover have "transform (transformers adultPipeline ! 1) (?alice ! 1) peopleHeaders
                     = Inr (Some (?alice ! Suc 1))" by code_simp
    ultimately show "transform (transformers adultPipeline ! i) (?alice ! i) peopleHeaders
                      = Inr (Some (?alice ! Suc i))" by auto
  qed
  have ag: "aggregator adultPipeline = Some newAggregator" by (simp add: adultPipeline_def)
  have ok: "fst (Aggregator_process demoRuntime newAggregator
                   [(''name'', JStr ''Alice''), (''age'', JStr ''30'')] peopleHeaders) = None"
    by code_simp
  from pipeline_stages_in_order [OF a1 a2 a3 a4, of demoRuntime] l ag ok
  have ra: "Pipeline_transform demoRuntime adultPipeline (peopleRows ! 0) peopleHeaders
     = (Inr (Some [(''name'', JStr ''Alice''), (''age'', JStr ''30'')]),
        adultPipeline\<lparr>aggregator := Some (snd (Aggregator_process demoRuntime newAggregator
                          [(''name'', JStr ''Alice''), (''age'', JStr ''30'')] peopleHeaders))\<rparr>)"
    by (simp add: case_prod_beta)
  have b1: "(1::nat) \<le> length (transformers adultPipeline)" using l by simp
  have b2: "length ?bob = Suc 1" by simp
  have b3: "?bob ! 0 = peopleRows ! 1" by simp
  have b4: "\<forall>i<1. transform (transformers adultPipeline ! i) (?bob ! i) peopleHeaders
                      = Inr (Some (?bob ! Suc i))"
  proof (intro allI impI)
    fix i :: nat assume "i < 1"
    then have i: "i = 0" by auto
    have "transform (transformers adultPipeline ! 0) (?bob ! 0) peopleHeaders
                     = Inr (Some (?bob ! Suc 0))" by code_simp
    with i show "transform (transformers adultPipeline ! i) (?bob ! i) peopleHeaders
                      = Inr (Some (?bob ! Suc i))" by simp
  qed
  have b5: "(1::nat) < length (transformers adultPipeline)" using l by simp
  have b6: "transform (transformers adultPipeline ! 1) (?bob ! 1) peopleHeaders = Inr None"
    by code_simp
  from pipeline_stages_in_order [OF b1 b2 b3 b4, of demoRuntime "[alwaysThrows]"] b5 b6
  have rb: "Pipeline_transform demoRuntime
              (adultPipeline\<lparr>transformers := take (Suc 1) (transformers adultPipeline) @ [alwaysThrows]\<rparr>)
              (peopleRows ! 1) peopleHeaders
          = (Inr None, adultPipeline\<lparr>transformers :=
               take (Suc 1) (transformers adultPipeline) @ [alwaysThrows]\<rparr>)"
    by blast
  from ra rb show ?thesis by simp
qed

text \<open>
  C4. \<open>TransformationPipeline.transform\<close> applies its transformers in order, returns
  \<open>null\<close> as soon as one of them does, without calling the later ones or the
  Aggregator, and otherwise hands the final row, not the input row, to the Aggregator
  (the lemmas above). But the pipeline does not always return that row: when a
  header is a name of \<open>Object.prototype\<close>, \<open>Aggregator.process\<close> throws a
  \<open>TypeError\<close> instead of passing the row through, and so does the pipeline. With the
  single column \<open>toString\<close> and statistics enabled the pipeline throws for the row
  \<open>{toString: "x"}\<close>, where for a column called \<open>name\<close> it returns the row; and a
  sequential run over two such rows writes none of them, where with the column \<open>name\<close>
  it writes both.
\<close>

theorem aggregator_throws_for_inherited_name:
  "fst (Pipeline_transform demoRuntime \<lparr>transformers = [], aggregator = Some newAggregator\<rparr>
          [(''toString'', JStr ''x'')] [''toString'']) = Inl TypeError
   \<and> fst (Pipeline_transform demoRuntime \<lparr>transformers = [], aggregator = Some newAggregator\<rparr>
          [(''name'', JStr ''x'')] [''name'']) = Inr (Some [(''name'', JStr ''x'')])
   \<and> map_option (\<lambda>res. (fst res, totalRowsProcessed (snd res), map content (files (snd res))))
        (process demoRuntime noWorkers statsOptions ''2026-01-01''
           (Readable 13 (Some ([''toString''], toStringRows))))
       = Some (None, 0, [''toString'' @ [LF]])
   \<and> map_option (\<lambda>res. (fst res, totalRowsProcessed (snd res), map content (files (snd res))))
        (process demoRuntime noWorkers statsOptions ''2026-01-01''
           (Readable 9 (Some ([''name''], [[(''name'', JStr ''x'')], [(''name'', JStr ''y'')]]))))
       = Some (None, 2, [''name'' @ [LF] @ ''x'' @ [LF] @ ''y'' @ [LF]])"
  by code_simp

section \<open>The Validator, and the worker of the parallel mode\<close>

lemma checkRule_empty:
  "isEmpty rt v \<Longrightarrow> checkRule rt ru v = Inr (\<not> required ru)"
  by (simp add: checkRule_def split: option.splits)

lemma checkRule_not_a_number:
  "isNaN (js_Number rt v) \<Longrightarrow>
   checkRule rt ru v = checkRule rt (ru\<lparr>ruleMin := None, ruleMax := None\<rparr>) v"
  by (simp add: checkRule_def split: option.splits)

lemma checkRule_never_raises_without_pattern:
  "pattern ru = None \<Longrightarrow> \<exists>b. checkRule rt ru v = Inr b"
  by (auto simp: checkRule_def)

lemma DataValidator_outcomes:
  "DataValidator_transform rt rules r hs = Inr (Some r')  \<Longrightarrow> r' = r"
  unfolding DataValidator_transform_def
  by (induction rules) (auto split: sum.splits bool.splits if_splits)

lemma DataValidator_drops:
  assumes "(column, ru) \<in> set rules" and "checkRule rt ru (getProp r column) = Inr False"
    and "\<forall>(c, u) \<in> set rules. \<exists>b. checkRule rt u (getProp r c) = Inr b"
  shows "DataValidator_transform rt rules r hs = Inr None"
  using assms unfolding DataValidator_transform_def
proof (induction rules)
  case Nil
  then show ?case by simp
next
  case (Cons a rules)
  obtain c u where a: "a = (c, u)" by (cases a)
  from Cons.prems(3) a obtain b where b: "checkRule rt u (getProp r c) = Inr b" by auto
  show ?case
  proof (cases b)
    case False
    with a b show ?thesis by simp
  next
    case True
    with Cons.prems a b have "(column, ru) \<in> set rules" by auto
    with Cons.IH Cons.prems a b True show ?thesis by simp
  qed
qed

text \<open>
  C8 at the failing input. The rule \<open>{maxLength: 0}\<close> on the column \<open>name\<close> is violated
  by the value \<open>Bob\<close> (three characters), yet \<open>DataValidator.transform\<close> returns the row:
  the guard \<open>rule.maxLength && \<dots>\<close> takes the bound \<open>0\<close> for an absent rule. With the
  bound \<open>1\<close> the same row is dropped. (The guards of \<open>min\<close> and \<open>max\<close> compare with
  \<open>undefined\<close>, so the bound \<open>0\<close> is checked there: the value \<open>5\<close> is dropped by
  \<open>{max: 0}\<close>.)
\<close>

theorem validator_maxLength_zero_not_checked:
  "DataValidator_transform rt [(''name'', noRule\<lparr>maxLength := Some 0\<rparr>)] [(''name'', JStr ''Bob'')] hs
     = Inr (Some [(''name'', JStr ''Bob'')])
   \<and> DataValidator_transform rt [(''name'', noRule\<lparr>maxLength := Some 1\<rparr>)] [(''name'', JStr ''Bob'')] hs
     = Inr None
   \<and> DataValidator_transform demoRuntime [(''n'', noRule\<lparr>ruleMax := Some (Fin 0)\<rparr>)] [(''n'', JStr ''5'')] hs
     = Inr None"
proof -
  have e: "\<not> isEmpty rt (JStr ''Bob'')"
    by (simp add: isEmpty_def js_trim_def isSpace_def)
  have a: "DataValidator_transform rt [(''name'', noRule\<lparr>maxLength := Some 0\<rparr>)]
             [(''name'', JStr ''Bob'')] hs = Inr (Some [(''name'', JStr ''Bob'')])"
    using e by (simp add: DataValidator_transform_def checkRule_def noRule_def getProp_def)
  have b: "DataValidator_transform rt [(''name'', noRule\<lparr>maxLength := Some 1\<rparr>)]
             [(''name'', JStr ''Bob'')] hs = Inr None"
    using e by (simp add: DataValidator_transform_def checkRule_def noRule_def getProp_def)
  have c: "DataValidator_transform demoRuntime [(''n'', noRule\<lparr>ruleMax := Some (Fin 0)\<rparr>)]
             [(''n'', JStr ''5'')] hs = Inr None"
    by code_simp
  from a b c show ?thesis by simp
qed

text \<open>
  C1 at the failing input. \<open>processChunk\<close> loops over all lines of its byte range when
  the range does not start at byte 0, and over all lines but the first when it does
  (\<open>startIndex\<close> is \<open>1\<close> for the first range only). So the worker of the second byte
  range of the example, which starts at byte 8 and holds the two lines \<open>3,4\<close> and
  \<open>5,6\<close>, does not skip its first physical line: it processes both lines as data rows.
  The worker of the first range skips its header line and processes the one row after it.
\<close>

theorem worker_processes_first_line_of_later_chunk:
  "processChunk rt wd buffer =
     (let w = w_loop rt wd
                (w_createNewOutputStream wd
                   \<lparr> w_currentFileIndex = 1, w_currentRowCount = 0, w_currentOutputStream = None,
                     w_files = [], rowsProcessed = 0, filesCreated = [], errors = [] \<rparr>)
                (if startByte wd = 0 then 1 else 0)
                (if startByte wd = 0 then drop 1 (splitOn LF buffer) else splitOn LF buffer)
      in if w_currentOutputStream w \<noteq> None then w_end w else w)
   \<and> rowsProcessed (processChunk demoRuntime secondChunk (''3,4'' @ [LF] @ ''5,6'' @ [LF])) = 2
   \<and> map wf_content (w_files (processChunk demoRuntime secondChunk (''3,4'' @ [LF] @ ''5,6'' @ [LF])))
       = [''a,b'' @ [LF] @ ''3,4'' @ [LF] @ ''5,6'' @ [LF]]
   \<and> rowsProcessed (processChunk demoRuntime firstChunk (''a,b'' @ [LF] @ ''1,2'' @ [LF])) = 1
   \<and> map wf_content (w_files (processChunk demoRuntime firstChunk (''a,b'' @ [LF] @ ''1,2'' @ [LF])))
       = [''a,b'' @ [LF] @ ''1,2'' @ [LF]]"
proof -
  have general: "processChunk rt wd buffer =
     (let w = w_loop rt wd
                (w_createNewOutputStream wd
                   \<lparr> w_currentFileIndex = 1, w_currentRowCount = 0, w_currentOutputStream = None,
                     w_files = [], rowsProcessed = 0, filesCreated = [], errors = [] \<rparr>)
                (if startByte wd = 0 then 1 else 0)
                (if startByte wd = 0 then drop 1 (splitOn LF buffer) else splitOn LF buffer)
      in if w_currentOutputStream w \<noteq> None then w_end w else w)"
    by (auto simp: processChunk_def Let_def)
  have second: "rowsProcessed (processChunk demoRuntime secondChunk (''3,4'' @ [LF] @ ''5,6'' @ [LF])) = 2
      \<and> map wf_content (w_files (processChunk demoRuntime secondChunk (''3,4'' @ [LF] @ ''5,6'' @ [LF])))
          = [''a,b'' @ [LF] @ ''3,4'' @ [LF] @ ''5,6'' @ [LF]]"
    by code_simp
  have first: "rowsProcessed (processChunk demoRuntime firstChunk (''a,b'' @ [LF] @ ''1,2'' @ [LF])) = 1
      \<and> map wf_content (w_files (processChunk demoRuntime firstChunk (''a,b'' @ [LF] @ ''1,2'' @ [LF])))
          = [''a,b'' @ [LF] @ ''1,2'' @ [LF]]"
    by code_simp
  from general second first show ?thesis by blast
qed

section \<open>The JSON-array writer\<close>

lemma wordChar_plain:
  assumes "wordChar c"
  shows "\<not> jsonSpace c" "c \<noteq> DQUOTE" "punct c = None"
  using assms
  by (auto simp: wordChar_def jsonSpace_def punct_def DQUOTE_def TAB_def LF_def CR_def Let_def)

lemma hexValue_hexDigit: "k < 16 \<Longrightarrow> hexValue (hexDigit k) = Some k"
  by (auto simp: hexValue_def hexDigit_def Let_def)

lemma lex_unicode_escape:
  assumes "(of_char c :: nat) < 32"
  shows "lex (Escaped acc) (CHR ''u'' # CHR ''0'' # CHR ''0'' # hexDigit ((of_char c :: nat) div 16)
            # hexDigit ((of_char c :: nat) mod 16) # rest)
         = lex (InString (acc @ [c])) rest"
proof -
  let ?n = "of_char c :: nat"
  have hi: "hexValue (hexDigit (?n div 16)) = Some (?n div 16)"
    using assms by (intro hexValue_hexDigit) simp
  have lo: "hexValue (hexDigit (?n mod 16)) = Some (?n mod 16)"
    by (intro hexValue_hexDigit) simp
  have z: "hexValue CHR ''0'' = Some 0" by (simp add: hexValue_def)
  have n: "hexNumber [CHR ''0'', CHR ''0'', hexDigit (?n div 16), hexDigit (?n mod 16)] = Some ?n"
    using hi lo z by simp
  have c: "char_of ?n = c" by simp
  have d: "[CHR ''0'', CHR ''0'', hexDigit (?n div 16)] @ [hexDigit (?n mod 16)]
             = [CHR ''0'', CHR ''0'', hexDigit (?n div 16), hexDigit (?n mod 16)]" by simp
  have lt: "?n < 256" using assms by simp
  show ?thesis
    using hi z c lt by (simp del: hexNumber.simps add: n d)
qed

lemma lex_quoteChar:
  "lex (InString acc) (quoteChar c @ rest) = lex (InString (acc @ [c])) rest"
proof -
  consider (dq) "c = DQUOTE" | (bs) "c = BACKSLASH" | (b) "c = CHR 0x08" | (f) "c = CHR 0x0C"
    | (n) "c = LF" | (r) "c = CR" | (t) "c = TAB"
    | (ctl) "c \<noteq> DQUOTE" "c \<noteq> BACKSLASH" "c \<noteq> CHR 0x08" "c \<noteq> CHR 0x0C" "c \<noteq> LF" "c \<noteq> CR"
            "c \<noteq> TAB" "(of_char c :: nat) < 32"
    | (plain) "c \<noteq> DQUOTE" "c \<noteq> BACKSLASH" "\<not> (of_char c :: nat) < 32"
              "c \<noteq> CHR 0x08" "c \<noteq> CHR 0x0C" "c \<noteq> LF" "c \<noteq> CR" "c \<noteq> TAB"
    by blast
  then show ?thesis
  proof cases
    case dq
    then show ?thesis by (simp add: quoteChar_def unescape_def DQUOTE_def BACKSLASH_def)
  next
    case bs
    then show ?thesis by (simp add: quoteChar_def unescape_def DQUOTE_def BACKSLASH_def)
  next
    case b
    then show ?thesis by (simp add: quoteChar_def unescape_def DQUOTE_def BACKSLASH_def LF_def CR_def TAB_def)
  next
    case f
    then show ?thesis by (simp add: quoteChar_def unescape_def DQUOTE_def BACKSLASH_def LF_def CR_def TAB_def)
  next
    case n
    then show ?thesis by (simp add: quoteChar_def unescape_def DQUOTE_def BACKSLASH_def LF_def CR_def TAB_def)
  next
    case r
    then show ?thesis by (simp add: quoteChar_def unescape_def DQUOTE_def BACKSLASH_def LF_def CR_def TAB_def)
  next
    case t
    then show ?thesis by (simp add: quoteChar_def unescape_def DQUOTE_def BACKSLASH_def LF_def CR_def TAB_def)
  next
    case ctl
    have "quoteChar c = [BACKSLASH, CHR ''u'', CHR ''0'', CHR ''0'',
              hexDigit ((of_char c :: nat) div 16), hexDigit ((of_char c :: nat) mod 16)]"
      using ctl by (simp add: quoteChar_def)
    moreover have "BACKSLASH \<noteq> DQUOTE" by (simp add: DQUOTE_def BACKSLASH_def)
    ultimately show ?thesis
      using lex_unicode_escape [OF ctl(8), of acc rest] by simp
  next
    case plain
    then show ?thesis by (simp add: quoteChar_def)
  qed
qed

lemma lex_string_body:
  "lex (InString acc) (concat (map quoteChar s) @ DQUOTE # rest)
     = consTok (TString (acc @ s)) (lex Between rest)"
proof (induction s arbitrary: acc)
  case Nil
  show ?case by simp
next
  case (Cons c s)
  have "lex (InString acc) (concat (map quoteChar (c # s)) @ DQUOTE # rest)
          = lex (InString acc) (quoteChar c @ (concat (map quoteChar s) @ DQUOTE # rest))"
    by simp
  also have "\<dots> = lex (InString (acc @ [c])) (concat (map quoteChar s) @ DQUOTE # rest)"
    by (rule lex_quoteChar)
  also have "\<dots> = consTok (TString ((acc @ [c]) @ s)) (lex Between rest)"
    by (rule Cons.IH)
  finally show ?case by simp
qed

lemma lex_string:
  "lex Between (quoteJSONString s @ rest) = consTok (TString s) (lex Between rest)"
proof -
  have "\<not> jsonSpace DQUOTE" by (simp add: jsonSpace_def DQUOTE_def TAB_def LF_def CR_def)
  then show ?thesis
    using lex_string_body [of "[]" s rest] by (simp add: quoteJSONString_def)
qed

lemma punct_facts:
  "punct CHR '','' = Some TComma" "punct CHR ''}'' = Some TRBrace" "punct CHR '':'' = Some TColon"
  "punct CHR ''{'' = Some TLBrace" "punct CHR ''['' = Some TLBracket" "punct CHR '']'' = Some TRBracket"
  "\<not> wordChar CHR '',''" "\<not> wordChar CHR ''}''" "\<not> wordChar CHR '':''"
  "\<not> wordChar CHR ''{''" "\<not> wordChar CHR ''[''" "\<not> wordChar CHR '']''"
  "\<not> jsonSpace CHR '',''" "\<not> jsonSpace CHR ''}''" "\<not> jsonSpace CHR '':''"
  "\<not> jsonSpace CHR ''{''" "\<not> jsonSpace CHR ''[''" "\<not> jsonSpace CHR '']''"
  "CHR '','' \<noteq> DQUOTE" "CHR ''}'' \<noteq> DQUOTE" "CHR '':'' \<noteq> DQUOTE"
  "CHR ''{'' \<noteq> DQUOTE" "CHR ''['' \<noteq> DQUOTE" "CHR '']'' \<noteq> DQUOTE"
  "jsonSpace LF" "jsonSpace CHR '' ''"
  by (simp_all add: punct_def wordChar_def jsonSpace_def DQUOTE_def TAB_def LF_def CR_def)

lemma lex_punct:
  assumes "punct d = Some t" and "\<not> wordChar d" and "\<not> jsonSpace d" and "d \<noteq> DQUOTE"
  shows "lex Between (d # rest) = consTok t (lex Between rest)"
  using assms by simp

lemma lex_word_run:
  "list_all wordChar w \<Longrightarrow> lex (InWord acc) (w @ rest) = lex (InWord (acc @ w)) rest"
  by (induction w arbitrary: acc) simp_all

lemma lex_word:
  assumes w: "w \<noteq> []" "list_all wordChar w"
    and d: "punct d = Some t" "\<not> wordChar d" "\<not> jsonSpace d"
  shows "lex Between (w @ d # rest) = consTok (TLiteral w) (consTok t (lex Between rest))"
proof -
  from w obtain c cs where c: "w = c # cs" "wordChar c" "list_all wordChar cs"
    by (cases w) auto
  from wordChar_plain [OF c(2)] c
  have "lex Between (w @ d # rest) = lex (InWord [c]) (cs @ d # rest)" by simp
  also have "\<dots> = lex (InWord ([c] @ cs)) (d # rest)"
    using c(3) by (rule lex_word_run)
  also have "\<dots> = consTok (TLiteral w) (consTok t (lex Between rest))"
    using d c(1) by simp
  finally show ?thesis .
qed

lemma literal_words:
  "list_all wordChar ''null''" "list_all wordChar ''true''" "list_all wordChar ''false''"
  by (simp_all add: wordChar_def)

lemma value_word:
  assumes "v \<noteq> JUndefined" and "\<forall>s. v \<noteq> JStr s"
    and "case v of JNum (Fin q) \<Rightarrow> isJsonNumber (numToString rt (Fin q)) | _ \<Rightarrow> True"
  shows "serializeJSONValue rt v \<noteq> []" "list_all wordChar (serializeJSONValue rt v)"
    "isJsonLiteral (serializeJSONValue rt v)"
proof -
  show "serializeJSONValue rt v \<noteq> []"
    using assms by (cases v; cases "case v of JNum n \<Rightarrow> n | _ \<Rightarrow> NaN")
      (auto simp: isJsonNumber_def)
  show "list_all wordChar (serializeJSONValue rt v)"
    using assms literal_words by (cases v; cases "case v of JNum n \<Rightarrow> n | _ \<Rightarrow> NaN")
      (auto simp: isJsonNumber_def)
  show "isJsonLiteral (serializeJSONValue rt v)"
    using assms by (cases v; cases "case v of JNum n \<Rightarrow> n | _ \<Rightarrow> NaN")
      (auto simp: isJsonLiteral_def)
qed

text \<open>A value followed by the comma or the closing brace.\<close>

lemma lex_value:
  assumes "v \<noteq> JUndefined"
    and "case v of JNum (Fin q) \<Rightarrow> isJsonNumber (numToString rt (Fin q)) | _ \<Rightarrow> True"
    and d: "punct d = Some t" "\<not> wordChar d" "\<not> jsonSpace d" "d \<noteq> DQUOTE"
  shows "lex Between (serializeJSONValue rt v @ d # rest)
           = consTok (valueToken rt v) (consTok t (lex Between rest))"
proof (cases "\<exists>s. v = JStr s")
  case True
  then obtain s where "v = JStr s" by blast
  then show ?thesis
    using lex_string [of s "d # rest"] lex_punct [OF d, of rest]
    by (simp add: valueToken_def)
next
  case False
  then have ns: "\<forall>s. v \<noteq> JStr s" by simp
  from value_word [OF assms(1) ns assms(2)] lex_word [OF _ _ d(1,2,3)]
  have "lex Between (serializeJSONValue rt v @ d # rest)
          = consTok (TLiteral (serializeJSONValue rt v)) (consTok t (lex Between rest))"
    by blast
  moreover from ns have "valueToken rt v = TLiteral (serializeJSONValue rt v)"
    by (cases v) (simp_all add: valueToken_def)
  ultimately show ?thesis by simp
qed

lemma lex_member:
  assumes "snd kv \<noteq> JUndefined"
    and "case snd kv of JNum (Fin q) \<Rightarrow> isJsonNumber (numToString rt (Fin q)) | _ \<Rightarrow> True"
    and d: "punct d = Some t" "\<not> wordChar d" "\<not> jsonSpace d" "d \<noteq> DQUOTE"
  shows "lex Between ((quoteJSONString (fst kv) @ '':'' @ serializeJSONValue rt (snd kv)) @ d # rest)
           = prependToks (memberTokens rt kv @ [t]) (lex Between rest)"
proof -
  have "lex Between ((quoteJSONString (fst kv) @ '':'' @ serializeJSONValue rt (snd kv)) @ d # rest)
      = consTok (TString (fst kv))
          (lex Between (CHR '':'' # serializeJSONValue rt (snd kv) @ d # rest))"
    using lex_string [of "fst kv" "CHR '':'' # serializeJSONValue rt (snd kv) @ d # rest"]
    by simp
  also have "lex Between (CHR '':'' # serializeJSONValue rt (snd kv) @ d # rest)
      = consTok TColon (lex Between (serializeJSONValue rt (snd kv) @ d # rest))"
    by (intro lex_punct) (simp_all add: punct_facts)
  also have "lex Between (serializeJSONValue rt (snd kv) @ d # rest)
      = consTok (valueToken rt (snd kv)) (consTok t (lex Between rest))"
    using assms by (intro lex_value)
  finally show ?thesis
    by (cases "lex Between rest") (simp_all add: consTok_def prependToks_def memberTokens_def)
qed


lemma consTok_prepend [simp]: "consTok t r = prependToks [t] r"
  by (cases r) (simp_all add: consTok_def prependToks_def)

lemma prependToks_simps [simp]:
  "prependToks a (prependToks b r) = prependToks (a @ b) r"
  "prependToks a (Some ts) = Some (a @ ts)"
  by (cases r; simp add: prependToks_def)+

lemma JSON_stringify_members:
  "JSON_stringify rt r
     = ''{'' @ join '','' (map (memberText rt) (filter (\<lambda>(k, v). v \<noteq> JUndefined) (ownEntries r)))
         @ ''}''"
proof -
  have "(\<lambda>(k, v). quoteJSONString k @ '':'' @ serializeJSONValue rt v) = memberText rt"
    by (rule ext) (simp add: memberText_def case_prod_unfold)
  then show ?thesis by (simp add: JSON_stringify_def)
qed

lemma lex_member':
  assumes "goodMember rt kv"
    and d: "punct d = Some t" "\<not> wordChar d" "\<not> jsonSpace d" "d \<noteq> DQUOTE"
  shows "lex Between (memberText rt kv @ d # rest)
           = prependToks (memberTokens rt kv @ [t]) (lex Between rest)"
  using lex_member [of kv rt d t rest] assms
  by (simp add: goodMember_def memberText_def)

lemma lex_members:
  assumes "kvs \<noteq> []" and "list_all (goodMember rt) kvs"
  shows "lex Between (join '','' (map (memberText rt) kvs) @ CHR ''}'' # rest)
           = prependToks (joinToks (map (memberTokens rt) kvs) @ [TRBrace]) (lex Between rest)"
  using assms
proof (induction kvs rule: induct_list012)
  case 1
  then show ?case by simp
next
  case (2 kv)
  then have g: "goodMember rt kv" by simp
  from lex_member' [OF g, of "CHR ''}''" TRBrace rest]
  show ?case by (simp add: punct_facts)
next
  case (3 kv kv' kvs)
  then have g: "goodMember rt kv" by simp
  let ?tail = "join '','' (map (memberText rt) (kv' # kvs)) @ CHR ''}'' # rest"
  from 3 have ih: "lex Between ?tail
      = prependToks (joinToks (map (memberTokens rt) (kv' # kvs)) @ [TRBrace]) (lex Between rest)"
    by simp
  from lex_member' [OF g, of "CHR '',''" TComma ?tail] ih
  show ?case by (simp add: punct_facts)
qed

lemma set_ownEntries: "set (ownEntries obj) = set obj"
  by (auto simp: ownEntries_def)

lemma good_filtered:
  "rowNumbersOK rt r
     \<Longrightarrow> list_all (goodMember rt) (filter (\<lambda>(k, v). v \<noteq> JUndefined) (ownEntries r))"
  by (auto simp: rowNumbersOK_def goodMember_def list_all_iff set_ownEntries)

lemma lex_object:
  assumes "rowNumbersOK rt r"
  shows "lex Between (JSON_stringify rt r @ rest) = prependToks (objectTokens rt r) (lex Between rest)"
proof (cases "filter (\<lambda>(k, v). v \<noteq> JUndefined) (ownEntries r) = []")
  case True
  then show ?thesis
    using lex_punct [of "CHR ''{''" TLBrace "CHR ''}'' # rest"] lex_punct [of "CHR ''}''" TRBrace rest]
    by (simp add: JSON_stringify_members objectTokens_def punct_facts)
next
  case False
  from lex_members [OF False good_filtered [OF assms], of rest]
    lex_punct [of "CHR ''{''" TLBrace]
  show ?thesis
    by (simp add: JSON_stringify_members objectTokens_def punct_facts)
qed

lemma lex_elements:
  assumes "rows \<noteq> []" and "list_all (rowNumbersOK rt) rows"
  shows "lex Between (join ('','' @ [LF]) (map (\<lambda>r. ''  '' @ JSON_stringify rt r) rows)
                        @ [LF, CHR '']'', LF])
           = Some (joinToks (map (objectTokens rt) rows) @ [TRBracket])"
  using assms
proof (induction rows rule: induct_list012)
  case 1
  then show ?case by simp
next
  case (2 r)
  then have g: "rowNumbersOK rt r" by simp
  have e: "lex Between [LF, CHR '']'', LF] = Some [TRBracket]"
    by (simp add: punct_facts)
  from lex_object [OF g, of "[LF, CHR '']'', LF]"] e
  show ?case by (simp add: punct_facts)
next
  case (3 r r' rows)
  then have g: "rowNumbersOK rt r" by simp
  let ?tail = "join ('','' @ [LF]) (map (\<lambda>r. ''  '' @ JSON_stringify rt r) (r' # rows))
                 @ [LF, CHR '']'', LF]"
  from 3 have ih: "lex Between ?tail = Some (joinToks (map (objectTokens rt) (r' # rows)) @ [TRBracket])"
    by simp
  have "lex Between (CHR '','' # LF # ?tail) = prependToks [TComma] (lex Between ?tail)"
    by (simp add: punct_facts)
  with lex_object [OF g, of "CHR '','' # LF # ?tail"] ih
  show ?case by (simp add: punct_facts)
qed

lemma scalarOf_value:
  assumes "goodMember rt kv"
  shows "(case valueToken rt (snd kv) of
            TString s \<Rightarrow> scalarOf rt (snd kv) = SString s
          | TLiteral w \<Rightarrow> scalarOf rt (snd kv) = SLiteral w \<and> isJsonLiteral w
          | _ \<Rightarrow> False)"
proof (cases "\<exists>s. snd kv = JStr s")
  case True
  then show ?thesis by (auto simp: valueToken_def)
next
  case False
  then have ns: "\<forall>s. snd kv \<noteq> JStr s" by simp
  from assms have u: "snd kv \<noteq> JUndefined"
    and n: "case snd kv of JNum (Fin q) \<Rightarrow> isJsonNumber (numToString rt (Fin q)) | _ \<Rightarrow> True"
    by (simp_all add: goodMember_def)
  from value_word(3) [OF u ns n] have l: "isJsonLiteral (serializeJSONValue rt (snd kv))" .
  have "scalarOf rt (snd kv) = SLiteral (serializeJSONValue rt (snd kv))"
    using u ns by (cases "snd kv"; cases "case snd kv of JNum n \<Rightarrow> n | _ \<Rightarrow> NaN") auto
  moreover have "valueToken rt (snd kv) = TLiteral (serializeJSONValue rt (snd kv))"
    using ns by (cases "snd kv") (simp_all add: valueToken_def)
  ultimately show ?thesis using l by simp
qed

lemma parse_member:
  assumes g: "goodMember rt kv" and st: "st = PObjOpen \<or> st = PObjComma"
  shows "parseTokens st objs ms (memberTokens rt kv @ ts)
           = parseTokens PMember objs (ms @ [(fst kv, scalarOf rt (snd kv))]) ts"
proof -
  from scalarOf_value [OF g] st show ?thesis
    by (cases "valueToken rt (snd kv)") (auto simp: memberTokens_def)
qed

lemma parse_members:
  assumes "kvs \<noteq> []" and "list_all (goodMember rt) kvs" and "st = PObjOpen \<or> st = PObjComma"
  shows "parseTokens st objs ms (joinToks (map (memberTokens rt) kvs) @ TRBrace # ts)
           = parseTokens PElem (objs @ [ms @ map (\<lambda>kv. (fst kv, scalarOf rt (snd kv))) kvs]) [] ts"
  using assms
proof (induction kvs arbitrary: st ms rule: induct_list012)
  case 1
  then show ?case by simp
next
  case (2 kv)
  then have g: "goodMember rt kv" by simp
  from parse_member [OF g "2.prems"(3), of objs ms "TRBrace # ts"]
  show ?case by simp
next
  case (3 kv kv' kvs)
  then have g: "goodMember rt kv" and g': "list_all (goodMember rt) (kv' # kvs)" by simp_all
  let ?ms = "ms @ [(fst kv, scalarOf rt (snd kv))]"
  have ih: "parseTokens PObjComma objs ?ms (joinToks (map (memberTokens rt) (kv' # kvs)) @ TRBrace # ts)
      = parseTokens PElem (objs @ [?ms @ map (\<lambda>kv. (fst kv, scalarOf rt (snd kv))) (kv' # kvs)]) [] ts"
    using g' by (intro "3.IH"(2)) simp_all
  from parse_member [OF g "3.prems"(3), of objs ms
      "TComma # joinToks (map (memberTokens rt) (kv' # kvs)) @ TRBrace # ts"] ih
  show ?case by simp
qed

lemma jsonOf_members:
  "jsonOf rt r = map (\<lambda>kv. (fst kv, scalarOf rt (snd kv)))
                     (filter (\<lambda>(k, v). v \<noteq> JUndefined) (ownEntries r))"
  by (simp add: jsonOf_def case_prod_unfold)

lemma parse_object:
  assumes g: "rowNumbersOK rt r" and st: "st = PArrayOpen \<or> st = PArrayComma"
  shows "parseTokens st objs ms (objectTokens rt r @ ts)
           = parseTokens PElem (objs @ [jsonOf rt r]) [] ts"
proof (cases "filter (\<lambda>(k, v). v \<noteq> JUndefined) (ownEntries r) = []")
  case True
  with st show ?thesis by (auto simp: objectTokens_def jsonOf_members)
next
  case False
  from parse_members [OF False good_filtered [OF g], of PObjOpen objs "[]" ts] st
  show ?thesis by (auto simp: objectTokens_def jsonOf_members)
qed

lemma parse_elements:
  assumes "rows \<noteq> []" and "list_all (rowNumbersOK rt) rows"
    and "st = PArrayOpen \<or> st = PArrayComma"
  shows "parseTokens st objs ms (joinToks (map (objectTokens rt) rows) @ [TRBracket])
           = Some (objs @ map (jsonOf rt) rows)"
  using assms
proof (induction rows arbitrary: st objs ms rule: induct_list012)
  case 1
  then show ?case by simp
next
  case (2 r)
  then have g: "rowNumbersOK rt r" by simp
  from parse_object [OF g "2.prems"(3), of objs ms "[TRBracket]"]
  show ?case by simp
next
  case (3 r r' rows)
  then have g: "rowNumbersOK rt r" and g': "list_all (rowNumbersOK rt) (r' # rows)" by simp_all
  have ih: "parseTokens PArrayComma (objs @ [jsonOf rt r]) []
              (joinToks (map (objectTokens rt) (r' # rows)) @ [TRBracket])
      = Some ((objs @ [jsonOf rt r]) @ map (jsonOf rt) (r' # rows))"
    using g' by (intro "3.IH"(2)) simp_all
  from parse_object [OF g "3.prems"(3), of objs ms
      "TComma # joinToks (map (objectTokens rt) (r' # rows)) @ [TRBracket]"] ih
  show ?case by simp
qed

lemma writeRows_array:
  assumes "format f = ''array''"
  shows "fst (JSONFormatter_writeRows rt f rows hs)
           = (if rows = [] then []
              else (if isFirstRow f then [] else '','' @ [LF])
                   @ join ('','' @ [LF]) (map (\<lambda>r. ''  '' @ JSON_stringify rt r) rows))"
  using assms
proof (induction rows arbitrary: f rule: induct_list012)
  case 1
  then show ?case by simp
next
  case (2 r)
  then show ?case by (simp add: JSONFormatter_writeRow_def)
next
  case (3 r r' rows)
  let ?f = "snd (JSONFormatter_writeRow rt f r hs)"
  from "3.prems" have f': "format ?f = ''array''" "\<not> isFirstRow ?f"
    by (simp_all add: JSONFormatter_writeRow_def)
  from "3.IH"(2) [OF f'(1)] f'(2)
  have ih: "fst (JSONFormatter_writeRows rt ?f (r' # rows) hs)
      = ('','' @ [LF]) @ join ('','' @ [LF]) (map (\<lambda>r. ''  '' @ JSON_stringify rt r) (r' # rows))"
    by simp
  have "fst (JSONFormatter_writeRows rt f (r # r' # rows) hs)
      = fst (JSONFormatter_writeRow rt f r hs) @ fst (JSONFormatter_writeRows rt ?f (r' # rows) hs)"
    by (simp add: case_prod_unfold Let_def)
  with ih "3.prems" show ?case
    by (simp add: JSONFormatter_writeRow_def)
qed

lemma writeFile_array:
  assumes "format f = ''array''"
  shows "JSONFormatter_writeFile rt f rows hs
           = ''['' @ [LF] @ join ('','' @ [LF]) (map (\<lambda>r. ''  '' @ JSON_stringify rt r) rows)
               @ [LF] @ '']'' @ [LF]"
proof -
  let ?f1 = "snd (JSONFormatter_writeHeader f hs)"
  have f1: "format ?f1 = ''array''" "isFirstRow ?f1"
    using assms by (simp_all add: JSONFormatter_writeHeader_def)
  have f2: "format (snd (JSONFormatter_writeRows rt g rows hs)) = format g" for g
    by (induction rows arbitrary: g) (simp_all add: case_prod_unfold Let_def JSONFormatter_writeRow_def)
  have "JSONFormatter_writeFile rt f rows hs
      = fst (JSONFormatter_writeHeader f hs) @ fst (JSONFormatter_writeRows rt ?f1 rows hs)
        @ JSONFormatter_writeFooter (snd (JSONFormatter_writeRows rt ?f1 rows hs))"
    by (simp add: JSONFormatter_writeFile_def case_prod_unfold Let_def)
  with writeRows_array [OF f1(1), of rt rows hs] f1 f2 [of ?f1] assms
  show ?thesis
    by (cases "rows = []") (simp_all add: JSONFormatter_writeHeader_def JSONFormatter_writeFooter_def)
qed

lemma read_array_file:
  assumes "list_all (rowNumbersOK rt) rows"
  shows "readJSONArray (''['' @ [LF] @ join ('','' @ [LF]) (map (\<lambda>r. ''  '' @ JSON_stringify rt r) rows)
               @ [LF] @ '']'' @ [LF]) = Some (map (jsonOf rt) rows)"
proof (cases "rows = []")
  case True
  then show ?thesis by (simp add: readJSONArray_def punct_facts)
next
  case False
  from lex_elements [OF False assms]
  have "lex Between (''['' @ [LF] @ join ('','' @ [LF]) (map (\<lambda>r. ''  '' @ JSON_stringify rt r) rows)
               @ [LF] @ '']'' @ [LF])
          = Some (TLBracket # joinToks (map (objectTokens rt) rows) @ [TRBracket])"
    by (simp add: punct_facts)
  with parse_elements [OF False assms, of PArrayOpen "[]" "[]"]
  show ?thesis by (simp add: readJSONArray_def)
qed

lemma createFormatter_json_format:
  assumes "createFormatter fmt = Inr (JSONFormatterObj g)"
  shows "format g = ''json'' \<or> format g = ''jsonl''"
  using assms
  by (auto simp: createFormatter_def Let_def JSONFormatter_new_def split: if_splits)

text \<open>
  A file written through a \<open>JSONFormatter\<close> whose format is \<open>array\<close>
  (\<open>writeHeader\<close>, then \<open>writeRow\<close> for each row, then \<open>writeFooter\<close>) consists of an
  opening \<open>[\<close> and a newline, each row serialized and indented by two spaces with every row
  after the first preceded by \<open>,\<close> and a newline, and the footer newline \<open>]\<close> newline.
  Provided the runtime renders the finite numbers of the rows as JSON numbers, the file
  parses as a single JSON array whose elements are the rows, so its length is the number of
  rows written. But no run selects this format: every \<open>JSONFormatter\<close> that
  \<open>createFormatter\<close> constructs has the format \<open>json\<close> or \<open>jsonl\<close>, never \<open>array\<close>.
\<close>

lemma JSONFormatter_array_file:
  assumes "format f = ''array''" and "numbersAsJSON rt rows"
  shows "JSONFormatter_writeFile rt f rows hs
           = ''['' @ [LF] @ join ('','' @ [LF]) (map (\<lambda>r. ''  '' @ JSON_stringify rt r) rows)
               @ [LF] @ '']'' @ [LF]
       \<and> readJSONArray (JSONFormatter_writeFile rt f rows hs) = Some (map (jsonOf rt) rows)
       \<and> map_option length (readJSONArray (JSONFormatter_writeFile rt f rows hs)) = Some (length rows)
       \<and> (createFormatter fmt = Inr (JSONFormatterObj g) \<longrightarrow> format g \<noteq> ''array'')"
proof -
  note w = writeFile_array [OF assms(1), of rt rows hs]
  from assms(2) have n: "list_all (rowNumbersOK rt) rows" by (simp add: numbersAsJSON_def)
  from read_array_file [OF n] w
  have r: "readJSONArray (JSONFormatter_writeFile rt f rows hs) = Some (map (jsonOf rt) rows)"
    by simp
  have c: "format g \<noteq> ''array''" if "createFormatter fmt = Inr (JSONFormatterObj g)"
    using createFormatter_json_format [OF that] by auto
  from w r c show ?thesis by simp
qed

lemma JSONFormatter_array_file_example:
  "readJSONArray (JSONFormatter_writeFile demoRuntime (JSONFormatter_new (Some ''array'')) typedRows
                    [''name'', ''age'', ''active''])
     = Some [[(''name'', SString ''Alice''), (''age'', SLiteral ''30''), (''active'', SLiteral ''true'')],
             [(''name'', SString (''Bob, '' @ [DQUOTE] @ ''Bobby'' @ [DQUOTE])),
              (''age'', SLiteral ''17''), (''active'', SLiteral ''null'')]]"
  by code_simp

text \<open>
  C6. The claim does not hold of the code: the output format that stands for the JSON
  array is \<open>json\<close> (the file extension is \<open>.json\<close>, and the array framing above is
  what \<open>JSONFormatter\<close> writes for it), but a run with that format does not write an
  array. In the sequential run of the two-row example with the output format \<open>json\<close>,
  the one output file holds both records, one JSON object per line; it does not start
  with \<open>[\<close> and does not parse as an array. The formatter that \<open>createFormatter\<close>
  builds for \<open>json\<close> has the format \<open>json\<close>, which the writer methods do not know,
  so that they write nothing; and the format name \<open>array\<close> is rejected.
\<close>

theorem json_run_writes_lines:
  "map_option fst (process demoRuntime noWorkers (plainOptions\<lparr>opt_outputFormat := Some ''json''\<rparr>)
                     ''2026-01-01'' (Readable 30 (Some (peopleHeaders, peopleRows)))) = Some None
   \<and> map fileName (files (snd (the (process demoRuntime noWorkers
                              (plainOptions\<lparr>opt_outputFormat := Some ''json''\<rparr>) ''2026-01-01''
                              (Readable 30 (Some (peopleHeaders, peopleRows)))))))
       = [''split_part_1_2026-01-01.json'']
   \<and> map records (files (snd (the (process demoRuntime noWorkers
                              (plainOptions\<lparr>opt_outputFormat := Some ''json''\<rparr>) ''2026-01-01''
                              (Readable 30 (Some (peopleHeaders, peopleRows))))))) = [2]
   \<and> map content (files (snd (the (process demoRuntime noWorkers
                              (plainOptions\<lparr>opt_outputFormat := Some ''json''\<rparr>) ''2026-01-01''
                              (Readable 30 (Some (peopleHeaders, peopleRows)))))))
       = [JSON_stringify demoRuntime (peopleRows ! 0) @ [LF]
          @ JSON_stringify demoRuntime (peopleRows ! 1) @ [LF]]
   \<and> take 1 (JSON_stringify demoRuntime (peopleRows ! 0)) = ''{''
   \<and> map (\<lambda>f. readJSONArray (content f))
        (files (snd (the (process demoRuntime noWorkers
                              (plainOptions\<lparr>opt_outputFormat := Some ''json''\<rparr>) ''2026-01-01''
                              (Readable 30 (Some (peopleHeaders, peopleRows))))))) = [None]
   \<and> createFormatter ''json'' = Inr (JSONFormatterObj \<lparr>isFirstRow = True, format = ''json''\<rparr>)
   \<and> JSONFormatter_writeFile demoRuntime \<lparr>isFirstRow = True, format = ''json''\<rparr> peopleRows
        peopleHeaders = []
   \<and> createFormatter ''array'' = Inl (Error ''Unsupported output format: array'')"
  by code_simp

end
